theory Spec2Isabelle
  imports Main "HOL-Library.Word"
begin

section \<open>JavaScript strings and values\<close>

text \<open>
  A JavaScript string is a sequence of 16-bit code units; \<open>length\<close>, \<open>substring\<close>,
  \<open>trim\<close> and the regular expressions of the module all count code units.
  \<open>str\<close> embeds an ASCII literal of the source.
\<close>

type_synonym cu = "16 word"
type_synonym jsstring = "cu list"

definition str :: "string \<Rightarrow> jsstring" where
  "str s = map of_char s"

text \<open>
  The values the module handles: what \<open>JSON.parse\<close> can return, and \<open>undefined\<close>.
  The module never computes with a number: it tests one (truthiness, \<open>> 0\<close>, \<open>=== 0\<close>) and
  prints one in a template. So \<open>VNum\<close> keeps a number as its sign and the text \<open>ToString\<close>
  gives for it, the shortest numeral that reads back as the same double.
  An object is its list of own properties; the first binding of a key is the live one.
\<close>

datatype numsign = NumNeg | NumZero | NumPos

datatype jsval =
    VUndefined
  | VNull
  | VBool bool
  | VNum numsign jsstring
  | VStr jsstring
  | VArr "jsval list"
  | VObj "(jsstring \<times> jsval) list"

datatype error = TypeError | URIError

text \<open>\<open>ToBoolean\<close>: what \<open>if (x)\<close>, \<open>!x\<close>, \<open>x || y\<close> and \<open>x ? a : b\<close> test.\<close>

fun truthy :: "jsval \<Rightarrow> bool" where
  "truthy VUndefined = False"
| "truthy VNull = False"
| "truthy (VBool b) = b"
| "truthy (VNum sg txt) = (sg \<noteq> NumZero)"
| "truthy (VStr s) = (s \<noteq> [])"
| "truthy (VArr xs) = True"
| "truthy (VObj ps) = True"

text \<open>\<open>String.prototype.trim\<close> strips WhiteSpace and LineTerminator code units at both ends.\<close>

definition is_ws :: "cu \<Rightarrow> bool" where
  "is_ws c = (let n = unat c in
     (9 \<le> n \<and> n \<le> 13) \<or> n = 32 \<or> n = 160 \<or> n = 5760 \<or> (8192 \<le> n \<and> n \<le> 8202)
     \<or> n = 8232 \<or> n = 8233 \<or> n = 8239 \<or> n = 8287 \<or> n = 12288 \<or> n = 65279)"

definition trim :: "jsstring \<Rightarrow> jsstring" where
  "trim s = rev (dropWhile is_ws (rev (dropWhile is_ws s)))"

text \<open>Decimal numeral of a natural number, as a template literal prints it.\<close>

fun digits :: "nat \<Rightarrow> jsstring" where
  "digits n = (if n < 10 then [of_nat (48 + n)] else digits (n div 10) @ [of_nat (48 + n mod 10)])"

declare digits.simps [simp del]

section \<open>Regular expressions with the \<open>i\<close> flag\<close>

text \<open>
  The patterns of the module use literals, character classes, sequence, alternation,
  greedy \<open>?\<close> and \<open>+\<close>, and capture groups, all under the \<open>i\<close> flag.
  \<open>ms r st\<close> lists the states a backtracking matcher reaches from \<open>st\<close>, in the order
  it tries them: the head is the match JavaScript reports. A state is the input still
  to read and the captures made so far (newest first). Every \<open>+\<close> of the module stands
  over a single character class, so an iteration always reads a code unit.

  Under \<open>i\<close> (without \<open>u\<close>) two code units match when their canonical forms agree; the
  canonical form never maps a code unit from 128 up to one below 128, so against the
  ASCII-only patterns of this module it is ASCII upper-casing.
\<close>

definition to_upper :: "cu \<Rightarrow> cu" where
  "to_upper c = (if 97 \<le> unat c \<and> unat c \<le> 122 then c - 32 else c)"

definition to_lower :: "cu \<Rightarrow> cu" where
  "to_lower c = (if 65 \<le> unat c \<and> unat c \<le> 90 then c + 32 else c)"

datatype regex =
    Eps
  | Lit cu
  | Class bool "(cu \<times> cu) list"
  | Seq regex regex
  | Alt regex regex
  | Opt regex
  | Plus regex
  | Group nat regex

type_synonym mstate = "jsstring \<times> (nat \<times> jsstring) list"

definition in_ranges :: "(cu \<times> cu) list \<Rightarrow> cu \<Rightarrow> bool" where
  "in_ranges rs c = list_ex (\<lambda>(lo, hi). unat lo \<le> unat c \<and> unat c \<le> unat hi) rs"

text \<open>\<open>Class neg rs\<close> is \<open>[...]\<close> over the ranges \<open>rs\<close>, or \<open>[^...]\<close> when \<open>neg\<close>.\<close>

definition class_matches :: "bool \<Rightarrow> (cu \<times> cu) list \<Rightarrow> cu \<Rightarrow> bool" where
  "class_matches neg rs c = ((in_ranges rs (to_upper c) \<or> in_ranges rs (to_lower c)) \<noteq> neg)"

fun ms :: "regex \<Rightarrow> mstate \<Rightarrow> mstate list" where
  "ms Eps st = [st]"
| "ms (Lit a) (s, caps) =
     (case s of [] \<Rightarrow> [] | c # t \<Rightarrow> if to_upper c = to_upper a then [(t, caps)] else [])"
| "ms (Class neg rs) (s, caps) =
     (case s of [] \<Rightarrow> [] | c # t \<Rightarrow> if class_matches neg rs c then [(t, caps)] else [])"
| "ms (Seq a b) st = concat (map (ms b) (ms a st))"
| "ms (Alt a b) st = ms a st @ ms b st"
| "ms (Opt a) st = ms a st @ [st]"
| "ms (Plus a) (s, caps) =
     concat (map (\<lambda>(s', caps').
        if length s' < length s then ms (Plus a) (s', caps') @ [(s', caps')] else [(s', caps')])
       (ms a (s, caps)))"
| "ms (Group n a) (s, caps) =
     map (\<lambda>(s', caps'). (s', (n, take (length s - length s') s) # caps')) (ms a (s, caps))"

text \<open>
  \<open>String.prototype.match\<close> with a non-global pattern: the leftmost start position
  that matches, \<open>None\<close> for \<open>null\<close>. The result is the matched text and the captures;
  \<open>grp m n\<close> is \<open>match[n]\<close>, \<open>None\<close> when group \<open>n\<close> took no part (\<open>undefined\<close>).
\<close>

type_synonym rmatch = "jsstring \<times> (nat \<times> jsstring) list"

fun search :: "regex \<Rightarrow> jsstring \<Rightarrow> rmatch option" where
  "search r s =
     (case ms r (s, []) of
        (s', caps) # _ \<Rightarrow> Some (take (length s - length s') s, caps)
      | [] \<Rightarrow> (case s of [] \<Rightarrow> None | _ # t \<Rightarrow> search r t))"

declare search.simps [simp del]

definition grp :: "rmatch \<Rightarrow> nat \<Rightarrow> jsstring option" where
  "grp m n = map_of (snd m) n"

fun lits :: "string \<Rightarrow> regex" where
  "lits [] = Eps"
| "lits [c] = Lit (of_char c)"
| "lits (c # cs) = Seq (Lit (of_char c)) (lits cs)"

fun seqs :: "regex list \<Rightarrow> regex" where
  "seqs [] = Eps"
| "seqs [r] = r"
| "seqs (r # rs) = Seq r (seqs rs)"

section \<open>The pattern registry\<close>

definition rng :: "char \<Rightarrow> char \<Rightarrow> cu \<times> cu" where
  "rng a b = (of_char a, of_char b)"

text \<open>\<open>[A-Za-z0-9_-]\<close>, \<open>[A-Za-z0-9]\<close>, \<open>\d\<close>, \<open>[^\/]\<close> and \<open>[^\/\?]\<close>.\<close>

definition id_ranges :: "(cu \<times> cu) list" where
  "id_ranges = [rng CHR ''A'' CHR ''Z'', rng CHR ''a'' CHR ''z'', rng CHR ''0'' CHR ''9'',
     rng CHR ''_'' CHR ''_'', rng CHR ''-'' CHR ''-'']"

definition id_class :: regex where
  "id_class = Class False id_ranges"

definition alnum_class :: regex where
  "alnum_class = Class False [rng CHR ''A'' CHR ''Z'', rng CHR ''a'' CHR ''z'', rng CHR ''0'' CHR ''9'']"

definition digit_class :: regex where
  "digit_class = Class False [rng CHR ''0'' CHR ''9'']"

definition not_slash :: regex where
  "not_slash = Class True [rng CHR ''/'' CHR ''/'']"

definition not_slash_query :: regex where
  "not_slash_query = Class True [rng CHR ''/'' CHR ''/'', rng CHR ''?'' CHR ''?'']"

text \<open>\<open>(?:https?:\/\/)?\<close>, the optional scheme every primary pattern starts with.\<close>

definition scheme :: regex where
  "scheme = Opt (seqs [lits ''http'', Opt (lits ''s''), lits ''://''])"

definition instagram_pattern :: regex where
  "instagram_pattern = seqs [scheme, Opt (lits ''www.''), lits ''instagram.com/'',
     Group 1 (Alt (lits ''reel'') (lits ''p'')), lits ''/'', Group 2 (Plus id_class)]"

definition instagram_profilePattern :: regex where
  "instagram_profilePattern = seqs [lits ''instagram.com/'', Group 1 (Plus not_slash_query)]"

definition youtube_pattern :: regex where
  "youtube_pattern = seqs [scheme, Opt (lits ''www.''),
     Alt (Seq (lits ''youtube.com/'') (Alt (lits ''watch?v='') (lits ''shorts/'')))
         (lits ''youtu.be/''),
     Group 1 (Plus id_class)]"

definition tiktok_pattern :: regex where
  "tiktok_pattern = seqs [scheme, Opt (lits ''www.''),
     Alt (seqs [lits ''tiktok.com/@'', Group 1 (Plus not_slash), lits ''/video/'',
                Group 2 (Plus digit_class)])
         (seqs [Alt (lits ''vm'') (lits ''vt''), lits ''.tiktok.com/'', Group 3 (Plus alnum_class)])]"

definition naver_pattern :: regex where
  "naver_pattern = seqs [scheme, Opt (lits ''m.''), Opt (lits ''tv.''), lits ''naver.com/'',
     Alt (lits ''v'') (lits ''clip''), lits ''/'', Group 1 (Plus digit_class)]"

record pattern_config =
  pattern :: regex
  profilePattern :: "regex option"
  name :: jsstring
  label :: jsstring

text \<open>\<open>Object.entries(URL_PATTERNS)\<close>: the entries in insertion order.\<close>

definition URL_PATTERNS :: "(jsstring \<times> pattern_config) list" where
  "URL_PATTERNS =
    [(str ''instagram'', \<lparr>pattern = instagram_pattern, profilePattern = Some instagram_profilePattern,
        name = str ''instagram'', label = str ''Instagram''\<rparr>),
     (str ''youtube'', \<lparr>pattern = youtube_pattern, profilePattern = None,
        name = str ''youtube'', label = str ''YouTube''\<rparr>),
     (str ''tiktok'', \<lparr>pattern = tiktok_pattern, profilePattern = None,
        name = str ''tiktok'', label = str ''TikTok''\<rparr>),
     (str ''naver'', \<lparr>pattern = naver_pattern, profilePattern = None,
        name = str ''naver'', label = str ''Naver''\<rparr>)]"

section \<open>parseUrl\<close>

text \<open>
  The classification \<open>parseUrl\<close> returns. \<open>videoId\<close> is \<open>None\<close> for \<open>undefined\<close>,
  \<open>thumbnail\<close> is \<open>None\<close> for \<open>null\<close>.
\<close>

record classification =
  url :: jsstring
  source :: jsstring
  sourceLabel :: jsstring
  videoId :: "jsstring option"
  creatorHandle :: jsstring
  suggestedTitle :: jsstring
  isTempTitle :: bool
  thumbnail :: "jsstring option"

text \<open>The clock \<open>new Date()\<close> reads: \<open>getMonth()\<close> (from 0) and \<open>getDate()\<close>.\<close>

record today =
  getMonth :: nat
  getDate :: nat

text \<open>\<open>a || b\<close> on captures: an absent or empty capture is falsy.\<close>

definition cap_or :: "jsstring option \<Rightarrow> jsstring option \<Rightarrow> jsstring option" where
  "cap_or a b = (case a of Some s \<Rightarrow> if s \<noteq> [] then a else b | None \<Rightarrow> b)"

definition getThumbnailUrl :: "jsstring \<Rightarrow> jsstring option \<Rightarrow> jsstring option" where
  "getThumbnailUrl src vid =
     (case vid of
        None \<Rightarrow> None
      | Some v \<Rightarrow>
          if v = [] then None
          else if src = str ''youtube''
            then Some (str ''https://img.youtube.com/vi/'' @ v @ str ''/maxresdefault.jpg'')
          else None)"

text \<open>The three code units of the Korean word for "recipe" in the suggested title.\<close>

definition recipe_word :: jsstring where
  "recipe_word = [0xB808, 0xC2DC, 0xD53C]"

definition make_suggestedTitle :: "today \<Rightarrow> pattern_config \<Rightarrow> jsstring" where
  "make_suggestedTitle now config =
     label config @ str '' '' @ recipe_word @ str '' ('' @
       digits (getMonth now + 1) @ str ''/'' @ digits (getDate now) @ str '')''"

text \<open>The body of the loop of \<open>parseUrl\<close> once the primary pattern has matched.\<close>

definition extract_ids :: "jsstring \<Rightarrow> pattern_config \<Rightarrow> jsstring \<Rightarrow> rmatch
    \<Rightarrow> jsstring \<times> jsstring option" where
  "extract_ids sourceName config trimmedUrl m =
     (if sourceName = str ''instagram'' then
        (case (case profilePattern config of None \<Rightarrow> None | Some p \<Rightarrow> search p trimmedUrl) of
           Some pm \<Rightarrow>
             (if grp pm 1 \<noteq> Some (str ''reel'') \<and> grp pm 1 \<noteq> Some (str ''p'')
              then (str ''@'' @ (case grp pm 1 of Some h \<Rightarrow> h | None \<Rightarrow> str ''undefined''), grp m 2)
              else ([], grp m 2))
         | None \<Rightarrow> ([], grp m 2))
      else if sourceName = str ''youtube'' then ([], grp m 1)
      else if sourceName = str ''tiktok'' then
        ((case grp m 1 of Some h \<Rightarrow> if h \<noteq> [] then str ''@'' @ h else [] | None \<Rightarrow> []),
         cap_or (cap_or (grp m 2) (grp m 3)) (Some []))
      else if sourceName = str ''naver'' then ([], grp m 1)
      else ([], Some []))"

definition classify :: "today \<Rightarrow> jsstring \<Rightarrow> pattern_config \<Rightarrow> jsstring \<Rightarrow> rmatch
    \<Rightarrow> classification" where
  "classify now sourceName config trimmedUrl m =
     (let (handle, vid) = extract_ids sourceName config trimmedUrl m in
      \<lparr>url = trimmedUrl,
       source = name config,
       sourceLabel = label config,
       videoId = vid,
       creatorHandle = handle,
       suggestedTitle = make_suggestedTitle now config,
       isTempTitle = (sourceName \<noteq> str ''youtube'' \<and> sourceName \<noteq> str ''instagram''),
       thumbnail = getThumbnailUrl (name config) vid\<rparr>)"

fun parse_loop :: "today \<Rightarrow> jsstring \<Rightarrow> (jsstring \<times> pattern_config) list \<Rightarrow> classification option" where
  "parse_loop now trimmedUrl [] = None"
| "parse_loop now trimmedUrl ((sourceName, config) # rest) =
     (case search (pattern config) trimmedUrl of
        Some m \<Rightarrow> Some (classify now sourceName config trimmedUrl m)
      | None \<Rightarrow> parse_loop now trimmedUrl rest)"

text \<open>
  \<open>parseUrl\<close> on any value: a falsy argument gives \<open>null\<close>; a truthy value that is
  not a string has no \<open>trim\<close> method and the call throws a TypeError.
\<close>

definition parseUrl :: "today \<Rightarrow> jsval \<Rightarrow> error + classification option" where
  "parseUrl now u =
     (if \<not> truthy u then Inr None
      else case u of
        VStr s \<Rightarrow> Inr (parse_loop now (trim s) URL_PATTERNS)
      | _ \<Rightarrow> Inl TypeError)"

definition isValidUrl :: "today \<Rightarrow> jsval \<Rightarrow> error + bool" where
  "isValidUrl now u = (case parseUrl now u of Inl e \<Rightarrow> Inl e | Inr r \<Rightarrow> Inr (r \<noteq> None))"

section \<open>Reading JavaScript values\<close>

definition vstr :: "string \<Rightarrow> jsval" where
  "vstr s = VStr (str s)"

text \<open>An object literal with ASCII property names.\<close>

definition obj :: "(string \<times> jsval) list \<Rightarrow> jsval" where
  "obj ps = VObj (map (\<lambda>(k, v). (str k, v)) ps)"

text \<open>\<open>a || b\<close>.\<close>

definition js_or :: "jsval \<Rightarrow> jsval \<Rightarrow> jsval" where
  "js_or a b = (if truthy a then a else b)"

definition nullish :: "jsval \<Rightarrow> bool" where
  "nullish v = (v = VUndefined \<or> v = VNull)"

text \<open>A number given by a natural number, such as a \<open>length\<close> or a literal of the source.\<close>

definition num :: "nat \<Rightarrow> jsval" where
  "num n = VNum (if n = 0 then NumZero else NumPos) (digits n)"

text \<open>
  \<open>get v k\<close> is \<open>v?.k\<close>: the own property of an object, \<open>length\<close> and element \<open>0\<close> of
  an array or a string, and \<open>undefined\<close> otherwise. The module reads no other index and
  no inherited property. \<open>read_prop v k\<close> is \<open>v.k\<close>, which throws on \<open>null\<close> and \<open>undefined\<close>.
\<close>

fun get :: "jsval \<Rightarrow> jsstring \<Rightarrow> jsval" where
  "get (VObj ps) k = (case map_of ps k of Some v \<Rightarrow> v | None \<Rightarrow> VUndefined)"
| "get (VArr xs) k =
     (if k = str ''length'' then num (length xs)
      else if k = str ''0'' then (case xs of [] \<Rightarrow> VUndefined | x # _ \<Rightarrow> x)
      else VUndefined)"
| "get (VStr s) k =
     (if k = str ''length'' then num (length s)
      else if k = str ''0'' then (case s of [] \<Rightarrow> VUndefined | c # _ \<Rightarrow> VStr [c])
      else VUndefined)"
| "get v k = VUndefined"

definition read_prop :: "jsval \<Rightarrow> jsstring \<Rightarrow> error + jsval" where
  "read_prop v k = (if nullish v then Inl TypeError else Inr (get v k))"

text \<open>
  \<open>ToString\<close>, as a template literal applies it, and equally the primitive a comparison
  reads from an array or an object. An array prints as its elements joined by commas,
  \<open>null\<close> and \<open>undefined\<close> elements as nothing. A parsed object prints through the inherited
  \<open>toString\<close> as \<open>[object Object]\<close>; when it carries an own \<open>toString\<close> property, that
  property hides the inherited method, is not callable, and the conversion throws a
  TypeError.
\<close>

fun join_comma :: "jsstring list \<Rightarrow> jsstring" where
  "join_comma [] = []"
| "join_comma [s] = s"
| "join_comma (s # ss) = s @ str '','' @ join_comma ss"

text \<open>The results of a list of conversions, or the first exception among them.\<close>

fun collect :: "(error + 'a) list \<Rightarrow> error + 'a list" where
  "collect [] = Inr []"
| "collect (Inl e # rs) = Inl e"
| "collect (Inr x # rs) = (case collect rs of Inl e \<Rightarrow> Inl e | Inr xs \<Rightarrow> Inr (x # xs))"

fun to_string :: "jsval \<Rightarrow> error + jsstring" where
  "to_string VUndefined = Inr (str ''undefined'')"
| "to_string VNull = Inr (str ''null'')"
| "to_string (VBool b) = Inr (if b then str ''true'' else str ''false'')"
| "to_string (VNum sg txt) = Inr txt"
| "to_string (VStr s) = Inr s"
| "to_string (VArr xs) =
     (case collect (map (\<lambda>x. if nullish x then Inr [] else to_string x) xs) of
        Inl e \<Rightarrow> Inl e
      | Inr ss \<Rightarrow> Inr (join_comma ss))"
| "to_string (VObj ps) =
     (if map_of ps (str ''toString'') \<noteq> None then Inl TypeError else Inr (str ''[object Object]''))"

text \<open>
  \<open>StringToNumber(s) > 0\<close>. The text is trimmed; empty text is zero. A numeral is a
  binary, octal or hexadecimal integer (\<open>0b\<close>, \<open>0o\<close>, \<open>0x\<close>, unsigned), or an optionally
  signed decimal: \<open>Infinity\<close>, or digits with an optional fraction and exponent. Anything
  else is not a number, and no comparison holds of it. A decimal is read with correct
  rounding to a double, so a positive numeral is above zero as a number exactly when it
  exceeds \<open>2^-1075\<close>, half of the least positive double.
\<close>

definition is_digit :: "cu \<Rightarrow> bool" where
  "is_digit c = (48 \<le> unat c \<and> unat c \<le> 57)"

definition is_hex_digit :: "cu \<Rightarrow> bool" where
  "is_hex_digit c = (is_digit c \<or> (65 \<le> unat c \<and> unat c \<le> 70) \<or> (97 \<le> unat c \<and> unat c \<le> 102))"

definition int_of_digits :: "jsstring \<Rightarrow> int" where
  "int_of_digits ds = foldl (\<lambda>a c. 10 * a + (uint c - 48)) 0 ds"

text \<open>The value of an ExponentPart, \<open>Some 0\<close> for none, \<open>None\<close> for text that is not one.\<close>

definition exponent_part :: "jsstring \<Rightarrow> int option" where
  "exponent_part r =
     (case r of
        [] \<Rightarrow> Some 0
      | c # t \<Rightarrow>
          if c = of_char CHR ''e'' \<or> c = of_char CHR ''E'' then
            (case t of
               [] \<Rightarrow> None
             | sg # d \<Rightarrow>
                 if sg = of_char CHR ''-'' then
                   (if d \<noteq> [] \<and> list_all is_digit d then Some (- int_of_digits d) else None)
                 else if sg = of_char CHR ''+'' then
                   (if d \<noteq> [] \<and> list_all is_digit d then Some (int_of_digits d) else None)
                 else if list_all is_digit t then Some (int_of_digits t)
                 else None)
          else None)"

text \<open>An unsigned decimal numeral whose double is above zero.\<close>

definition decimal_positive :: "jsstring \<Rightarrow> bool" where
  "decimal_positive u =
     (if u = str ''Infinity'' then True
      else
        let ip = takeWhile is_digit u;
            r1 = dropWhile is_digit u;
            dotted = (r1 \<noteq> [] \<and> hd r1 = of_char CHR ''.'');
            fp = (if dotted then takeWhile is_digit (tl r1) else []);
            r2 = (if dotted then dropWhile is_digit (tl r1) else r1)
        in if ip = [] \<and> fp = [] then False
           else
             (case exponent_part r2 of
                None \<Rightarrow> False
              | Some e \<Rightarrow>
                  let m = int_of_digits (ip @ fp);
                      scale = e - int (length fp)
                  in 0 < m \<and> (0 \<le> scale \<or> 10 ^ nat (- scale) < m * 2 ^ 1075)))"

definition string_positive :: "jsstring \<Rightarrow> bool" where
  "string_positive s =
     (case trim s of
        [] \<Rightarrow> False
      | c # t \<Rightarrow>
          if c = of_char CHR ''0'' \<and> t \<noteq> [] \<and> hd t \<in> {of_char CHR ''x'', of_char CHR ''X''} then
            tl t \<noteq> [] \<and> list_all is_hex_digit (tl t) \<and> list_ex (\<lambda>d. d \<noteq> of_char CHR ''0'') (tl t)
          else if c = of_char CHR ''0'' \<and> t \<noteq> [] \<and> hd t \<in> {of_char CHR ''o'', of_char CHR ''O''} then
            tl t \<noteq> [] \<and> list_all (\<lambda>d. 48 \<le> unat d \<and> unat d \<le> 55) (tl t)
              \<and> list_ex (\<lambda>d. d \<noteq> of_char CHR ''0'') (tl t)
          else if c = of_char CHR ''0'' \<and> t \<noteq> [] \<and> hd t \<in> {of_char CHR ''b'', of_char CHR ''B''} then
            tl t \<noteq> [] \<and> list_all (\<lambda>d. 48 \<le> unat d \<and> unat d \<le> 49) (tl t)
              \<and> list_ex (\<lambda>d. d \<noteq> of_char CHR ''0'') (tl t)
          else if c = of_char CHR ''-'' then False
          else if c = of_char CHR ''+'' then decimal_positive t
          else decimal_positive (c # t))"

text \<open>
  \<open>x > 0\<close>: \<open>undefined\<close> is not a number and \<open>null\<close> is zero; a boolean counts as 1 or 0;
  a string is read as a numeral; an array or an object is first printed, which can throw.
  \<open>x === 0\<close> holds of the number zero only.
\<close>

fun js_gt0 :: "jsval \<Rightarrow> error + bool" where
  "js_gt0 VUndefined = Inr False"
| "js_gt0 VNull = Inr False"
| "js_gt0 (VBool b) = Inr b"
| "js_gt0 (VNum sg txt) = Inr (sg = NumPos)"
| "js_gt0 (VStr s) = Inr (string_positive s)"
| "js_gt0 v = (case to_string v of Inl e \<Rightarrow> Inl e | Inr s \<Rightarrow> Inr (string_positive s))"

fun js_is0 :: "jsval \<Rightarrow> bool" where
  "js_is0 (VNum sg txt) = (sg = NumZero)"
| "js_is0 v = False"

text \<open>
  \<open>{...v, source: s}\<close>: the own enumerable properties of \<open>v\<close> (the entries of an object,
  the indexed elements of an array or a string, none for a number or a boolean), with
  \<open>source\<close> set.
\<close>

fun put :: "jsstring \<Rightarrow> jsval \<Rightarrow> (jsstring \<times> jsval) list \<Rightarrow> (jsstring \<times> jsval) list" where
  "put k v [] = [(k, v)]"
| "put k v ((k', v') # ps) = (if k = k' then (k, v) # ps else (k', v') # put k v ps)"

fun own_props :: "jsval \<Rightarrow> (jsstring \<times> jsval) list" where
  "own_props (VObj ps) = ps"
| "own_props (VArr xs) = zip (map digits [0..<length xs]) xs"
| "own_props (VStr s) = zip (map digits [0..<length s]) (map (\<lambda>c. VStr [c]) s)"
| "own_props v = []"

definition with_source :: "jsval \<Rightarrow> string \<Rightarrow> jsval" where
  "with_source v s = VObj (put (str ''source'') (vstr s) (own_props v))"

text \<open>
  \<open>encodeURIComponent\<close>: the unreserved code units stay, every other code point is
  written as the percent-escaped bytes of its UTF-8 form; a lone surrogate throws a
  URIError.
\<close>

definition unreserved :: "cu \<Rightarrow> bool" where
  "unreserved c = (let n = unat c in
     (65 \<le> n \<and> n \<le> 90) \<or> (97 \<le> n \<and> n \<le> 122) \<or> (48 \<le> n \<and> n \<le> 57)
     \<or> n \<in> {45, 95, 46, 33, 126, 42, 39, 40, 41})"

definition hex_digit :: "nat \<Rightarrow> cu" where
  "hex_digit d = (if d < 10 then of_nat (48 + d) else of_nat (55 + d))"

definition pct :: "nat \<Rightarrow> jsstring" where
  "pct b = [of_char CHR ''%'', hex_digit (b div 16), hex_digit (b mod 16)]"

definition utf8 :: "nat \<Rightarrow> jsstring" where
  "utf8 cp =
     (if cp < 128 then pct cp
      else if cp < 2048 then pct (192 + cp div 64) @ pct (128 + cp mod 64)
      else if cp < 65536 then
        pct (224 + cp div 4096) @ pct (128 + cp div 64 mod 64) @ pct (128 + cp mod 64)
      else pct (240 + cp div 262144) @ pct (128 + cp div 4096 mod 64)
           @ pct (128 + cp div 64 mod 64) @ pct (128 + cp mod 64))"

definition is_high_surrogate :: "cu \<Rightarrow> bool" where
  "is_high_surrogate c = (55296 \<le> unat c \<and> unat c < 56320)"

definition is_low_surrogate :: "cu \<Rightarrow> bool" where
  "is_low_surrogate c = (56320 \<le> unat c \<and> unat c < 57344)"

fun encodeURIComponent :: "jsstring \<Rightarrow> error + jsstring" where
  "encodeURIComponent [] = Inr []"
| "encodeURIComponent (c # t) =
     (if unreserved c then
        (case encodeURIComponent t of Inl e \<Rightarrow> Inl e | Inr r \<Rightarrow> Inr (c # r))
      else if is_low_surrogate c then Inl URIError
      else if is_high_surrogate c then
        (case t of
           [] \<Rightarrow> Inl URIError
         | d # t' \<Rightarrow>
             if is_low_surrogate d then
               (case encodeURIComponent t' of
                  Inl e \<Rightarrow> Inl e
                | Inr r \<Rightarrow> Inr (utf8 (65536 + (unat c - 55296) * 1024 + (unat d - 56320)) @ r))
             else Inl URIError)
      else
        (case encodeURIComponent t of Inl e \<Rightarrow> Inl e | Inr r \<Rightarrow> Inr (utf8 (unat c) @ r)))"

section \<open>The network\<close>

text \<open>
  A request as \<open>fetch\<close> receives it. \<open>req_body\<close> is the value the code passes to
  \<open>JSON.stringify\<close>; \<open>req_timeout\<close> is the delay in milliseconds after which the code
  aborts the request through its \<open>AbortController\<close>, when it sets one up.
\<close>

record request =
  req_method :: jsstring
  req_url :: jsstring
  req_headers :: "(jsstring \<times> jsstring) list"
  req_body :: "jsval option"
  req_timeout :: "nat option"

text \<open>
  A response: its status and what \<open>response.json()\<close> resolves to, \<open>None\<close> when the body
  is not JSON and the call rejects. \<open>response.ok\<close> is a status from 200 to 299.
\<close>

record response =
  status :: nat
  json :: "jsval option"

definition ok :: "response \<Rightarrow> bool" where
  "ok r = (200 \<le> status r \<and> status r \<le> 299)"

text \<open>
  What the network does with a request: the promise rejects (transport error), or a
  response arrives after a number of milliseconds.
\<close>

datatype outcome = Rejected | Responded nat response

type_synonym network = "request \<Rightarrow> outcome"

text \<open>
  \<open>await fetch(...)\<close>: \<open>None\<close> when the promise rejects, which it also does when the
  abort timer of the request fires before the response arrives. A response that arrives
  at the very millisecond of the timer counts as aborted.
\<close>

definition fetch :: "network \<Rightarrow> request \<Rightarrow> response option" where
  "fetch net rq =
     (case net rq of
        Rejected \<Rightarrow> None
      | Responded t r \<Rightarrow>
          (case req_timeout rq of
             None \<Rightarrow> Some r
           | Some limit \<Rightarrow> if t < limit then Some r else None))"

definition get_request :: "jsstring \<Rightarrow> nat option \<Rightarrow> request" where
  "get_request u limit =
     \<lparr>req_method = str ''GET'', req_url = u, req_headers = [], req_body = None, req_timeout = limit\<rparr>"

definition post_json :: "jsstring \<Rightarrow> jsval \<Rightarrow> request" where
  "post_json u b =
     \<lparr>req_method = str ''POST'', req_url = u,
      req_headers = [(str ''Content-Type'', str ''application/json'')],
      req_body = Some b, req_timeout = None\<rparr>"

text \<open>
  \<open>data && data.length > 0\<close>, then \<open>data[0]\<close>: \<open>Inr None\<close> when the test fails, an
  exception when the comparison throws.
\<close>

definition first_item :: "jsval \<Rightarrow> error + jsval option" where
  "first_item data =
     (if \<not> truthy data then Inr None
      else case js_gt0 (get data (str ''length'')) of
             Inl e \<Rightarrow> Inl e
           | Inr positive \<Rightarrow> Inr (if positive then Some (get data (str ''0'')) else None))"

text \<open>A template literal with one hole, \<open>pre${v}post\<close>.\<close>

definition template :: "jsstring \<Rightarrow> jsval \<Rightarrow> jsstring \<Rightarrow> error + jsstring" where
  "template pre v post =
     (case to_string v of Inl e \<Rightarrow> Inl e | Inr s \<Rightarrow> Inr (pre @ s @ post))"

section \<open>fetchInstagramMetadata\<close>

text \<open>
  Every fetcher returns its result together with the requests it issued, in order.
  Console output is not modelled.
\<close>

definition instagram_media_url :: "jsstring \<Rightarrow> jsstring" where
  "instagram_media_url postId = str ''https://www.instagram.com/p/'' @ postId @ str ''/media/?size=l''"

text \<open>
  The request of the Apify tier. The URL is a template over the token, evaluated inside
  the \<open>try\<close> block: a token that cannot be printed throws there.
\<close>

definition instagram_request :: "jsstring \<Rightarrow> jsval \<Rightarrow> error + request" where
  "instagram_request postId apifyApiToken =
     (case template
             (str ''https://api.apify.com/v2/acts/apify~instagram-scraper/run-sync-get-dataset-items?token='')
             apifyApiToken [] of
        Inl e \<Rightarrow> Inl e
      | Inr apiUrl \<Rightarrow>
          Inr (post_json apiUrl
                 (obj [(''directUrls'', VArr [VStr (str ''https://www.instagram.com/p/'' @ postId @ str ''/'')]),
                       (''resultsType'', vstr ''details''),
                       (''searchType'', vstr ''hashtag''),
                       (''searchLimit'', num 1)])))"

text \<open>
  The object built from the first item of the dataset, its properties evaluated in the
  order of the literal. \<open>caption.split\<close> exists on a string only: any other truthy caption
  throws, as do reading a property of a \<open>null\<close> item and printing an owner name that has
  an own \<open>toString\<close>.
\<close>

definition instagram_title :: "jsval \<Rightarrow> jsval \<Rightarrow> error + jsval" where
  "instagram_title caption ownerUsername =
     (if truthy caption then
        (case caption of
           VStr c \<Rightarrow> Inr (VStr (take 100 (takeWhile (\<lambda>x. x \<noteq> 10) c)))
         | _ \<Rightarrow> Inl TypeError)
      else
        (case template (str ''Instagram Post by '') (js_or ownerUsername (vstr ''Unknown'')) [] of
           Inl e \<Rightarrow> Inl e
         | Inr t \<Rightarrow> Inr (VStr t)))"

definition instagram_authorName :: "jsval \<Rightarrow> error + jsval" where
  "instagram_authorName ownerUsername =
     (if truthy ownerUsername then
        (case template (str ''@'') ownerUsername [] of Inl e \<Rightarrow> Inl e | Inr t \<Rightarrow> Inr (VStr t))
      else Inr (VStr []))"

definition instagram_from_item :: "jsstring \<Rightarrow> jsval \<Rightarrow> error + jsval" where
  "instagram_from_item postId item =
     (if nullish item then Inl TypeError
      else
        let caption = js_or (get item (str ''caption'')) (VStr []);
            ownerUsername = js_or (get item (str ''ownerUsername'')) (VStr []);
            displayUrl = js_or (get item (str ''displayUrl'')) (get item (str ''thumbnailUrl''))
        in case instagram_title caption ownerUsername of
             Inl e \<Rightarrow> Inl e
           | Inr title \<Rightarrow>
               (case instagram_authorName ownerUsername of
                  Inl e \<Rightarrow> Inl e
                | Inr authorName \<Rightarrow>
                    Inr (obj [(''title'', title),
                              (''description'', caption),
                              (''authorName'', authorName),
                              (''thumbnail'', js_or displayUrl (VStr (instagram_media_url postId))),
                              (''source'', vstr ''instagram'')])))"

definition instagram_fallback :: "jsstring \<Rightarrow> jsval" where
  "instagram_fallback postId =
     obj [(''title'', VStr (str ''Instagram Post ('' @ postId @ str '')'')),
          (''description'', VStr []),
          (''authorName'', VStr []),
          (''thumbnail'', VStr (instagram_media_url postId)),
          (''source'', vstr ''instagram'')]"

definition fetchInstagramMetadata :: "network \<Rightarrow> jsstring \<Rightarrow> jsval \<Rightarrow> jsval \<times> request list" where
  "fetchInstagramMetadata net postId apifyApiToken =
     (if truthy apifyApiToken then
        (case instagram_request postId apifyApiToken of
           Inl e \<Rightarrow> (instagram_fallback postId, [])
         | Inr rq \<Rightarrow>
             (case fetch net rq of
                None \<Rightarrow> (instagram_fallback postId, [rq])
              | Some response \<Rightarrow>
                  if ok response then
                    (case json response of
                       None \<Rightarrow> (instagram_fallback postId, [rq])
                     | Some data \<Rightarrow>
                         (case first_item data of
                            Inl e \<Rightarrow> (instagram_fallback postId, [rq])
                          | Inr None \<Rightarrow> (instagram_fallback postId, [rq])
                          | Inr (Some item) \<Rightarrow>
                              (case instagram_from_item postId item of
                                 Inl e \<Rightarrow> (instagram_fallback postId, [rq])
                               | Inr result \<Rightarrow> (result, [rq]))))
                  else (instagram_fallback postId, [rq])))
      else (instagram_fallback postId, []))"

section \<open>fetchYouTubeMetadata\<close>

definition INVIDIOUS_INSTANCES :: "jsstring list" where
  "INVIDIOUS_INSTANCES =
     [str ''https://inv.tux.pizza'',
      str ''https://invidious.jing.rocks'',
      str ''https://vid.puffyan.us'',
      str ''https://inv.bp.projectsegfau.lt'',
      str ''https://invidious.nerdvpn.de'']"

definition invidious_request :: "jsstring \<Rightarrow> jsstring \<Rightarrow> request" where
  "invidious_request vid base = get_request (base @ str ''/api/v1/videos/'' @ vid) (Some 2000)"

text \<open>
  The loop of \<open>fetchFromInvidious\<close> over the instances still to try. A rejection, an
  abort, a status that is not ok and a body that is not JSON all go on to the next
  instance; the first parsed body is returned as it is. Everything happens inside the
  \<open>try\<close> block of the loop, so the function has no way to throw: \<open>null\<close> is its only
  failure value.
\<close>

fun contacted :: "request \<Rightarrow> jsval \<times> request list \<Rightarrow> jsval \<times> request list" where
  "contacted rq (result, rqs) = (result, rq # rqs)"

fun invidious_loop :: "network \<Rightarrow> jsstring \<Rightarrow> jsstring list \<Rightarrow> jsval \<times> request list" where
  "invidious_loop net vid [] = (VNull, [])"
| "invidious_loop net vid (base # rest) =
     (let rq = invidious_request vid base in
      case fetch net rq of
        None \<Rightarrow> contacted rq (invidious_loop net vid rest)
      | Some response \<Rightarrow>
          if ok response then
            (case json response of
               None \<Rightarrow> contacted rq (invidious_loop net vid rest)
             | Some data \<Rightarrow> (data, [rq]))
          else contacted rq (invidious_loop net vid rest))"

definition fetchFromInvidious :: "network \<Rightarrow> jsstring \<Rightarrow> jsval \<times> request list" where
  "fetchFromInvidious net vid = invidious_loop net vid INVIDIOUS_INSTANCES"

definition youtube_thumbnail :: "jsstring \<Rightarrow> jsstring" where
  "youtube_thumbnail vid = str ''https://img.youtube.com/vi/'' @ vid @ str ''/maxresdefault.jpg''"

definition youtube_api_request :: "jsstring \<Rightarrow> jsval \<Rightarrow> error + request" where
  "youtube_api_request vid apiKey =
     (case template (str ''https://www.googleapis.com/youtube/v3/videos?part=snippet&id='' @ vid
                       @ str ''&key='') apiKey [] of
        Inl e \<Rightarrow> Inl e
      | Inr u \<Rightarrow> Inr (get_request u None))"

definition youtube_api_result :: "jsstring \<Rightarrow> jsval \<Rightarrow> error + jsval" where
  "youtube_api_result vid data =
     (case read_prop data (str ''items'') of
        Inl e \<Rightarrow> Inl e
      | Inr items \<Rightarrow>
          if \<not> truthy items \<or> js_is0 (get items (str ''length'')) then Inr VNull
          else
            (case read_prop (get items (str ''0'')) (str ''snippet'') of
               Inl e \<Rightarrow> Inl e
             | Inr snippet \<Rightarrow>
                 if nullish snippet then Inl TypeError
                 else
                   let thumbnails = get snippet (str ''thumbnails'') in
                   Inr (obj [(''title'', get snippet (str ''title'')),
                             (''authorName'', get snippet (str ''channelTitle'')),
                             (''description'', get snippet (str ''description'')),
                             (''thumbnail'',
                                js_or (js_or (get (get thumbnails (str ''maxres'')) (str ''url''))
                                             (get (get thumbnails (str ''high'')) (str ''url'')))
                                      (VStr (youtube_thumbnail vid)))])))"

definition fetchFromYouTubeAPI :: "network \<Rightarrow> jsstring \<Rightarrow> jsval \<Rightarrow> jsval \<times> request list" where
  "fetchFromYouTubeAPI net vid apiKey =
     (if \<not> truthy apiKey then (VNull, [])
      else
        case youtube_api_request vid apiKey of
          Inl e \<Rightarrow> (VNull, [])
        | Inr rq \<Rightarrow>
            (case fetch net rq of
               None \<Rightarrow> (VNull, [rq])
             | Some response \<Rightarrow>
                 if \<not> ok response then (VNull, [rq])
                 else
                   (case json response of
                      None \<Rightarrow> (VNull, [rq])
                    | Some data \<Rightarrow>
                        (case youtube_api_result vid data of
                           Inl e \<Rightarrow> (VNull, [rq])
                         | Inr result \<Rightarrow> (result, [rq])))))"

definition oembed_result :: "jsstring \<Rightarrow> jsval \<Rightarrow> error + jsval" where
  "oembed_result vid data =
     (if nullish data then Inl TypeError
      else Inr (obj [(''title'', js_or (get data (str ''title'')) VNull),
                     (''authorName'', js_or (get data (str ''author_name'')) VNull),
                     (''description'', VStr []),
                     (''thumbnail'', js_or (get data (str ''thumbnail_url''))
                                           (VStr (youtube_thumbnail vid)))]))"

definition fetchFromOEmbed :: "network \<Rightarrow> jsstring \<Rightarrow> jsval \<times> request list" where
  "fetchFromOEmbed net vid =
     (case encodeURIComponent (str ''https://www.youtube.com/watch?v='' @ vid) of
        Inl e \<Rightarrow> (VNull, [])
      | Inr encoded \<Rightarrow>
          let rq = get_request (str ''https://www.youtube.com/oembed?url='' @ encoded
                                  @ str ''&format=json'') None
          in case fetch net rq of
               None \<Rightarrow> (VNull, [rq])
             | Some response \<Rightarrow>
                 if \<not> ok response then (VNull, [rq])
                 else
                   (case json response of
                      None \<Rightarrow> (VNull, [rq])
                    | Some data \<Rightarrow>
                        (case oembed_result vid data of
                           Inl e \<Rightarrow> (VNull, [rq])
                         | Inr result \<Rightarrow> (result, [rq]))))"

definition apify_youtube_request :: "jsstring \<Rightarrow> jsval \<Rightarrow> error + request" where
  "apify_youtube_request vid apifyApiToken =
     (case template
             (str ''https://api.apify.com/v2/acts/h7sDV53CddomktSi5/run-sync-get-dataset-items?token='')
             apifyApiToken [] of
        Inl e \<Rightarrow> Inl e
      | Inr apiUrl \<Rightarrow>
          Inr (post_json apiUrl
                 (obj [(''startUrls'',
                          VArr [obj [(''url'', VStr (str ''https://www.youtube.com/watch?v='' @ vid))]]),
                       (''maxResults'', num 1),
                       (''subtitlesLanguage'', vstr ''en''),
                       (''subtitlesFormat'', vstr ''srt'')])))"

text \<open>
  The Apify tier on the first item: \<open>Inr None\<close> when the item carries an error or no
  title and the chain goes on, \<open>Inr (Some m)\<close> when the tier returns \<open>m\<close>.
\<close>

definition apify_youtube_from_item :: "jsstring \<Rightarrow> jsval \<Rightarrow> error + jsval option" where
  "apify_youtube_from_item vid item =
     (if nullish item then Inl TypeError
      else if truthy (get item (str ''error'')) \<or> \<not> truthy (get item (str ''title'')) then Inr None
      else
        Inr (Some (obj
          [(''title'', get item (str ''title'')),
           (''description'',
              js_or (js_or (js_or (js_or (js_or (js_or (get item (str ''description''))
                (get item (str ''text''))) (get item (str ''shortDescription'')))
                (get item (str ''metaDescription''))) (get item (str ''videoDescription'')))
                (get item (str ''desc''))) (VStr [])),
           (''authorName'',
              js_or (js_or (js_or (js_or (get item (str ''channelName'')) (get item (str ''author'')))
                (get item (str ''channelTitle''))) (get item (str ''uploader''))) (VStr [])),
           (''thumbnail'', js_or (get item (str ''thumbnailUrl'')) (VStr (youtube_thumbnail vid))),
           (''source'', vstr ''apify_youtube'')])))"

definition apify_youtube_tier :: "network \<Rightarrow> jsstring \<Rightarrow> jsval \<Rightarrow> jsval option \<times> request list" where
  "apify_youtube_tier net vid apifyApiToken =
     (if truthy apifyApiToken then
        (case apify_youtube_request vid apifyApiToken of
           Inl e \<Rightarrow> (None, [])
         | Inr rq \<Rightarrow>
             (case fetch net rq of
                None \<Rightarrow> (None, [rq])
              | Some response \<Rightarrow>
                  if ok response then
                    (case json response of
                       None \<Rightarrow> (None, [rq])
                     | Some data \<Rightarrow>
                         (case first_item data of
                            Inl e \<Rightarrow> (None, [rq])
                          | Inr None \<Rightarrow> (None, [rq])
                          | Inr (Some item) \<Rightarrow>
                              (case apify_youtube_from_item vid item of
                                 Inl e \<Rightarrow> (None, [rq])
                               | Inr result \<Rightarrow> (result, [rq]))))
                  else (None, [rq])))
      else (None, []))"

definition fetchYouTubeMetadata :: "network \<Rightarrow> jsstring \<Rightarrow> jsval \<Rightarrow> jsval \<Rightarrow> jsval \<times> request list" where
  "fetchYouTubeMetadata net vid youtubeApiKey apifyApiToken =
     (let (apify, rqs1) = apify_youtube_tier net vid apifyApiToken in
      case apify of
        Some result \<Rightarrow> (result, rqs1)
      | None \<Rightarrow>
          let (invidiousData, rqs2) = fetchFromInvidious net vid in
          if truthy invidiousData then (with_source invidiousData ''invidious'', rqs1 @ rqs2)
          else
            let (apiData, rqs3) =
                  (if truthy youtubeApiKey then fetchFromYouTubeAPI net vid youtubeApiKey
                   else (VNull, []))
            in if truthy apiData then (with_source apiData ''youtube_api'', rqs1 @ rqs2 @ rqs3)
               else
                 let (oEmbedData, rqs4) = fetchFromOEmbed net vid in
                 if truthy oEmbedData
                 then (with_source oEmbedData ''oembed'', rqs1 @ rqs2 @ rqs3 @ rqs4)
                 else (VNull, rqs1 @ rqs2 @ rqs3 @ rqs4))"

section \<open>fetchTikTokMetadata\<close>

definition tiktok_request :: "jsstring \<Rightarrow> jsval \<Rightarrow> error + request" where
  "tiktok_request u apifyApiToken =
     (case template
             (str ''https://api.apify.com/v2/acts/S5h7zRLfKFEr8pdj7/run-sync-get-dataset-items?token='')
             apifyApiToken [] of
        Inl e \<Rightarrow> Inl e
      | Inr apiUrl \<Rightarrow>
          Inr (post_json apiUrl
                 (obj [(''postURLs'', VArr [VStr u]),
                       (''scrapeRelatedVideos'', VBool False),
                       (''resultsPerPage'', num 1),
                       (''shouldDownloadVideos'', VBool False),
                       (''shouldDownloadCovers'', VBool False),
                       (''shouldDownloadSubtitles'', VBool False),
                       (''shouldDownloadSlideshowImages'', VBool False)])))"

text \<open>\<open>s.split('/').pop()\<close>: the text after the last slash.\<close>

definition last_segment :: "jsstring \<Rightarrow> jsstring" where
  "last_segment s = rev (takeWhile (\<lambda>x. x \<noteq> 47) (rev s))"

text \<open>
  The constants \<open>title\<close>, \<open>author\<close>, \<open>canonicalVideoId\<close> and \<open>canonicalUrl\<close> the code
  computes from the item. \<open>split\<close> exists on a string only, and the templates throw on a
  value that cannot be printed; the right side of \<open>||\<close> is evaluated only when the left
  side is falsy.
\<close>

definition tiktok_title :: "jsval \<Rightarrow> jsval" where
  "tiktok_title item =
     js_or (js_or (get item (str ''text'')) (get item (str ''desc''))) (vstr ''TikTok Video'')"

definition tiktok_author :: "jsval \<Rightarrow> jsval" where
  "tiktok_author item =
     js_or (js_or (js_or (get (get item (str ''authorMeta'')) (str ''name''))
                         (get (get item (str ''authorMeta'')) (str ''nickName'')))
                  (get item (str ''author''))) (VStr [])"

definition tiktok_canonicalVideoId :: "jsval \<Rightarrow> error + jsval" where
  "tiktok_canonicalVideoId item =
     (if truthy (get item (str ''id'')) then Inr (get item (str ''id''))
      else if truthy (get item (str ''webVideoUrl'')) then
        (case get item (str ''webVideoUrl'') of
           VStr w \<Rightarrow> Inr (VStr (last_segment w))
         | _ \<Rightarrow> Inl TypeError)
      else Inr VNull)"

definition tiktok_canonicalUrl :: "jsval \<Rightarrow> jsval \<Rightarrow> jsval \<Rightarrow> error + jsval" where
  "tiktok_canonicalUrl item author canonicalVideoId =
     (if truthy (get item (str ''webVideoUrl'')) then Inr (get item (str ''webVideoUrl''))
      else
        (case template (str ''https://www.tiktok.com/@'') author (str ''/video/'') of
           Inl e \<Rightarrow> Inl e
         | Inr start \<Rightarrow>
             (case template start canonicalVideoId [] of
                Inl e \<Rightarrow> Inl e
              | Inr t \<Rightarrow> Inr (VStr t))))"

definition tiktok_authorName :: "jsval \<Rightarrow> error + jsval" where
  "tiktok_authorName author =
     (if truthy author then
        (case template (str ''@'') author [] of Inl e \<Rightarrow> Inl e | Inr t \<Rightarrow> Inr (VStr t))
      else Inr (VStr []))"

definition tiktok_from_item :: "jsval \<Rightarrow> error + jsval" where
  "tiktok_from_item item =
     (if nullish item then Inl TypeError
      else
        let author = tiktok_author item;
            description = js_or (get item (str ''text'')) (VStr []);
            thumb = js_or (js_or (js_or (get (get item (str ''videoMeta'')) (str ''coverUrl''))
                                        (get item (str ''imageUrl'')))
                                 (get (get item (str ''video'')) (str ''cover''))) (VStr [])
        in case tiktok_canonicalVideoId item of
             Inl e \<Rightarrow> Inl e
           | Inr canonicalVideoId \<Rightarrow>
               (case tiktok_canonicalUrl item author canonicalVideoId of
                  Inl e \<Rightarrow> Inl e
                | Inr canonicalUrl \<Rightarrow>
                    (case tiktok_title item of
                       VStr t \<Rightarrow>
                         (case tiktok_authorName author of
                            Inl e \<Rightarrow> Inl e
                          | Inr authorName \<Rightarrow>
                              Inr (obj [(''title'', VStr (take 100 t)),
                                        (''description'', description),
                                        (''authorName'', authorName),
                                        (''thumbnail'', thumb),
                                        (''source'', vstr ''tiktok''),
                                        (''videoId'', canonicalVideoId),
                                        (''canonicalUrl'', canonicalUrl),
                                        (''originalData'', item)]))
                     | _ \<Rightarrow> Inl TypeError)))"

text \<open>
  The object built from the URL alone. \<open>parseUrl\<close> is called outside the \<open>try\<close> block,
  so an exception of \<open>parseUrl\<close> would leave \<open>fetchTikTokMetadata\<close>.
\<close>

definition tiktok_fallback :: "today \<Rightarrow> jsstring \<Rightarrow> error + jsval" where
  "tiktok_fallback now u =
     (case parseUrl now (VStr u) of
        Inl e \<Rightarrow> Inl e
      | Inr parsed \<Rightarrow>
          Inr (obj [(''title'', js_or (case parsed of Some c \<Rightarrow> VStr (suggestedTitle c)
                                                    | None \<Rightarrow> VUndefined) (vstr ''TikTok Video'')),
                    (''description'', VStr []),
                    (''authorName'', js_or (case parsed of Some c \<Rightarrow> VStr (creatorHandle c)
                                                         | None \<Rightarrow> VUndefined) (VStr [])),
                    (''thumbnail'', VStr []),
                    (''source'', vstr ''tiktok'')]))"

definition fetchTikTokMetadata :: "today \<Rightarrow> network \<Rightarrow> jsstring \<Rightarrow> jsval
    \<Rightarrow> (error + jsval) \<times> request list" where
  "fetchTikTokMetadata now net u apifyApiToken =
     (if \<not> truthy apifyApiToken then (tiktok_fallback now u, [])
      else
        case tiktok_request u apifyApiToken of
          Inl e \<Rightarrow> (tiktok_fallback now u, [])
        | Inr rq \<Rightarrow>
            (case fetch net rq of
               None \<Rightarrow> (tiktok_fallback now u, [rq])
             | Some response \<Rightarrow>
                 if ok response then
                   (case json response of
                      None \<Rightarrow> (tiktok_fallback now u, [rq])
                    | Some data \<Rightarrow>
                        (case first_item data of
                           Inl e \<Rightarrow> (tiktok_fallback now u, [rq])
                         | Inr None \<Rightarrow> (tiktok_fallback now u, [rq])
                         | Inr (Some item) \<Rightarrow>
                             (case tiktok_from_item item of
                                Inl e \<Rightarrow> (tiktok_fallback now u, [rq])
                              | Inr result \<Rightarrow> (Inr result, [rq]))))
                 else (tiktok_fallback now u, [rq])))"

section \<open>The older copy of the module\<close>

text \<open>
  The repository holds an older copy of the module, \<open>src/utils/urlParser.js\<close>. Its
  \<open>parseUrl\<close> differs in two places: the TikTok pattern knows the short-link host \<open>vm\<close>
  but not \<open>vt\<close>, and \<open>isTempTitle\<close> is \<open>sourceName !== 'youtube'\<close>. It has no Instagram
  or TikTok fetcher, and its YouTube chain starts at the federated tier.
\<close>

definition tiktok_pattern_legacy :: regex where
  "tiktok_pattern_legacy = seqs [scheme, Opt (lits ''www.''),
     Alt (seqs [lits ''tiktok.com/@'', Group 1 (Plus not_slash), lits ''/video/'',
                Group 2 (Plus digit_class)])
         (seqs [lits ''vm.tiktok.com/'', Group 3 (Plus alnum_class)])]"

definition URL_PATTERNS_legacy :: "(jsstring \<times> pattern_config) list" where
  "URL_PATTERNS_legacy =
    [(str ''instagram'', \<lparr>pattern = instagram_pattern, profilePattern = Some instagram_profilePattern,
        name = str ''instagram'', label = str ''Instagram''\<rparr>),
     (str ''youtube'', \<lparr>pattern = youtube_pattern, profilePattern = None,
        name = str ''youtube'', label = str ''YouTube''\<rparr>),
     (str ''tiktok'', \<lparr>pattern = tiktok_pattern_legacy, profilePattern = None,
        name = str ''tiktok'', label = str ''TikTok''\<rparr>),
     (str ''naver'', \<lparr>pattern = naver_pattern, profilePattern = None,
        name = str ''naver'', label = str ''Naver''\<rparr>)]"

definition classify_legacy :: "today \<Rightarrow> jsstring \<Rightarrow> pattern_config \<Rightarrow> jsstring \<Rightarrow> rmatch
    \<Rightarrow> classification" where
  "classify_legacy now sourceName config trimmedUrl m =
     (let (handle, vid) = extract_ids sourceName config trimmedUrl m in
      \<lparr>url = trimmedUrl,
       source = name config,
       sourceLabel = label config,
       videoId = vid,
       creatorHandle = handle,
       suggestedTitle = make_suggestedTitle now config,
       isTempTitle = (sourceName \<noteq> str ''youtube''),
       thumbnail = getThumbnailUrl (name config) vid\<rparr>)"

fun parse_loop_legacy :: "today \<Rightarrow> jsstring \<Rightarrow> (jsstring \<times> pattern_config) list
    \<Rightarrow> classification option" where
  "parse_loop_legacy now trimmedUrl [] = None"
| "parse_loop_legacy now trimmedUrl ((sourceName, config) # rest) =
     (case search (pattern config) trimmedUrl of
        Some m \<Rightarrow> Some (classify_legacy now sourceName config trimmedUrl m)
      | None \<Rightarrow> parse_loop_legacy now trimmedUrl rest)"

definition parseUrl_legacy :: "today \<Rightarrow> jsval \<Rightarrow> error + classification option" where
  "parseUrl_legacy now u =
     (if \<not> truthy u then Inr None
      else case u of
        VStr s \<Rightarrow> Inr (parse_loop_legacy now (trim s) URL_PATTERNS_legacy)
      | _ \<Rightarrow> Inl TypeError)"

section \<open>Notions used in the statements\<close>

text \<open>Group \<open>n\<close> took part in a match and captured a non-empty text.\<close>

definition captured :: "nat \<Rightarrow> (nat \<times> jsstring) list \<Rightarrow> bool" where
  "captured n caps = (\<exists>v. map_of caps n = Some v \<and> v \<noteq> [])"

text \<open>A string made of code units of \<open>[A-Za-z0-9_-]\<close> only, and the punctuation no such
  code unit matches.\<close>

definition id_only :: "jsstring \<Rightarrow> bool" where
  "id_only s = list_all (in_ranges id_ranges) s"

definition punct :: "char \<Rightarrow> bool" where
  "punct p = (p = CHR ''.'' \<or> p = CHR '':'' \<or> p = CHR ''/'')"

text \<open>
  The parsed body a request yields when it succeeds: the response arrives (before the
  abort timer, if any), its status is ok and its body is JSON. \<open>None\<close> otherwise.
\<close>

definition answer :: "network \<Rightarrow> request \<Rightarrow> jsval option" where
  "answer net rq = (case fetch net rq of None \<Rightarrow> None | Some r \<Rightarrow> if ok r then json r else None)"

text \<open>The requests of the federated tier, one per instance, in the order of the list.\<close>

definition mirror_requests :: "jsstring \<Rightarrow> request list" where
  "mirror_requests vid = map (invidious_request vid) INVIDIOUS_INSTANCES"

text \<open>A network on which every request is rejected, and one that answers every request
  with status 200 and the same parsed body.\<close>

definition unreachable :: network where
  "unreachable rq = Rejected"

definition always :: "jsval \<Rightarrow> network" where
  "always body rq = Responded 0 \<lparr>status = 200, json = Some body\<rparr>"

text \<open>
  Sample data: a scraped text of 120 letters, a line feed and a second line; a dataset
  whose item carries it as caption, text and title; and a network on which the first
  mirror answers after 2500 ms, the second with status 503 and the third with a document.
\<close>

definition long_text :: jsstring where
  "long_text = replicate 120 (of_char CHR ''a'') @ [10] @ str ''more''"

definition scraped_dataset :: jsval where
  "scraped_dataset = VArr [obj [(''caption'', VStr long_text), (''text'', VStr long_text),
     (''title'', VStr long_text)]]"

definition third_mirror_net :: network where
  "third_mirror_net rq =
     (if req_url rq = str ''https://inv.tux.pizza/api/v1/videos/dQw4w9WgXcQ''
        then Responded 2500 \<lparr>status = 200, json = Some (obj [(''title'', vstr ''Late'')])\<rparr>
      else if req_url rq = str ''https://invidious.jing.rocks/api/v1/videos/dQw4w9WgXcQ''
        then Responded 10 \<lparr>status = 503, json = None\<rparr>
      else if req_url rq = str ''https://vid.puffyan.us/api/v1/videos/dQw4w9WgXcQ''
        then Responded 120 \<lparr>status = 200, json = Some (obj [(''title'', vstr ''Pasta'')])\<rparr>
      else Rejected)"

text \<open>
  A value has a string form: \<open>ToString\<close> returns instead of throwing. Every primitive
  has one; an array or an object has none when it holds an own \<open>toString\<close> property.
\<close>

definition printable :: "jsval \<Rightarrow> bool" where
  "printable v = (case to_string v of Inl e \<Rightarrow> False | Inr s \<Rightarrow> True)"

text \<open>
  What \<open>fetchYouTubeMetadata\<close> returns once the federated tier has yielded nothing: the
  result of the Data API tier when a key is given and the tier answers, else that of the
  embed tier, else \<open>null\<close>.
\<close>

definition after_invidious :: "network \<Rightarrow> jsstring \<Rightarrow> jsval \<Rightarrow> jsval" where
  "after_invidious net vid youtubeApiKey =
     (let apiData = (if truthy youtubeApiKey then fst (fetchFromYouTubeAPI net vid youtubeApiKey)
                     else VNull)
      in if truthy apiData then with_source apiData ''youtube_api''
         else
           let oEmbedData = fst (fetchFromOEmbed net vid)
           in if truthy oEmbedData then with_source oEmbedData ''oembed'' else VNull)"

section \<open>Facts about the matcher\<close>

lemmas regex_defs = instagram_pattern_def instagram_profilePattern_def youtube_pattern_def
  tiktok_pattern_def naver_pattern_def scheme_def id_class_def id_ranges_def alnum_class_def digit_class_def
  not_slash_def not_slash_query_def rng_def class_matches_def in_ranges_def to_upper_def
  to_lower_def str_def

lemmas parse_defs = parseUrl_def URL_PATTERNS_def classify_def extract_ids_def search.simps
  trim_def is_ws_def grp_def cap_or_def getThumbnailUrl_def

lemma search_Nil: "search r [] = (case ms r ([], []) of (s', caps) # _ \<Rightarrow> Some ([], caps) | [] \<Rightarrow> None)"
  by (simp add: search.simps split: list.splits)

lemma search_Cons: "search r (c # t) =
   (case ms r (c # t, []) of (s', caps) # _ \<Rightarrow> Some (take (Suc (length t) - length s') (c # t), caps)
    | [] \<Rightarrow> search r t)"
  by (subst search.simps) (simp split: list.splits)

text \<open>
  The matcher only moves forward: the input left in a result is a suffix of the input it
  started from. Stated for any reflexive, transitive relation that dropping the first
  code unit respects.
\<close>

lemma ms_rel:
  assumes R_refl: "\<And>s. R s s" and R_trans: "\<And>a b c. R a b \<Longrightarrow> R b c \<Longrightarrow> R a c"
    and R_step: "\<And>c t. R t (c # t)"
  shows "st' \<in> set (ms r st) \<Longrightarrow> R (fst st') (fst st)"
proof (induction r st arbitrary: st' rule: ms.induct)
  case (1 st)
  then show ?case by (simp add: R_refl)
next
  case (2 a s caps)
  then show ?case by (cases s) (simp_all add: R_step split: if_splits)
next
  case (3 neg rs s caps)
  then show ?case by (cases s) (simp_all add: R_step split: if_splits)
next
  case (4 a b st)
  from 4(3) obtain x where x: "x \<in> set (ms a st)" and y: "st' \<in> set (ms b x)"
    by (simp only: ms.simps set_concat set_map) blast
  have "R (fst st') (fst x)" using 4(2)[OF x y] .
  moreover have "R (fst x) (fst st)" using 4(1)[OF x] .
  ultimately show ?case by (rule R_trans)
next
  case (5 a b st)
  from 5(3) have "st' \<in> set (ms a st) \<or> st' \<in> set (ms b st)"
    by (simp only: ms.simps set_append Un_iff)
  then show ?case
  proof
    assume "st' \<in> set (ms a st)" then show ?thesis by (rule 5(1))
  next
    assume "st' \<in> set (ms b st)" then show ?thesis by (rule 5(2))
  qed
next
  case (6 a st)
  from 6(2) have "st' \<in> set (ms a st) \<or> st' \<in> set [st]"
    by (simp only: ms.simps set_append Un_iff)
  then show ?case
  proof
    assume "st' \<in> set (ms a st)" then show ?thesis by (rule 6(1))
  next
    assume "st' \<in> set [st]" then have "st' = st" by simp
    then show ?thesis by (simp add: R_refl)
  qed
next
  case (7 a s caps)
  have "st' \<in> (\<Union>x\<in>set (ms a (s, caps)). set ((\<lambda>(s', caps').
        if length s' < length s then ms (Plus a) (s', caps') @ [(s', caps')] else [(s', caps')]) x))"
    using 7(3) by (subst (asm) ms.simps) (simp only: set_concat set_map image_image)
  then obtain x where m: "x \<in> set (ms a (s, caps))"
    and r0: "st' \<in> set ((\<lambda>(s', caps').
        if length s' < length s then ms (Plus a) (s', caps') @ [(s', caps')] else [(s', caps')]) x)"
    by (simp only: UN_iff) (erule bexE)
  obtain s1 c1 where xeq: "x = (s1, c1)" by (cases x)
  from r0 have r: "st' \<in> set (if length s1 < length s then ms (Plus a) (s1, c1) @ [(s1, c1)] else [(s1, c1)])"
    by (simp only: xeq prod.case)
  have "R (fst x) (fst (s, caps))" using m by (rule 7(1))
  then have l1: "R s1 s" by (simp only: xeq fst_conv)
  show ?case
  proof (cases "length s1 < length s")
    case True
    with r have "st' \<in> set (ms (Plus a) (s1, c1)) \<or> st' \<in> set [(s1, c1)]"
      by (simp only: if_True set_append Un_iff)
    then show ?thesis
    proof
      assume a: "st' \<in> set (ms (Plus a) (s1, c1))"
      have "R (fst st') (fst (s1, c1))"
        using m[unfolded xeq] refl True a by (rule 7(2))
      then have "R (fst st') s1" by simp
      then have "R (fst st') s" using l1 by (rule R_trans)
      then show ?thesis by simp
    next
      assume "st' \<in> set [(s1, c1)]"
      then have "st' = (s1, c1)" by simp
      with l1 show ?thesis by simp
    qed
  next
    case False
    with r have "st' = (s1, c1)" by (simp only: if_False) simp
    with l1 show ?thesis by simp
  qed
next
  case (8 n a s caps)
  from 8(2) obtain x where x: "x \<in> set (ms a (s, caps))"
     and e: "st' = (\<lambda>(s', caps'). (s', (n, take (length s - length s') s) # caps')) x"
    by (simp only: ms.simps set_map image_iff) (erule bexE)
  from e have "fst st' = fst x" by (cases x) simp
  then show ?case using 8(1)[OF x] by simp
qed

lemma ms_length: "st' \<in> set (ms r st) \<Longrightarrow> length (fst st') \<le> length (fst st)"
  by (rule ms_rel[where R = "\<lambda>a b. length a \<le> length b"]) simp_all

lemma ms_subset: "st' \<in> set (ms r st) \<Longrightarrow> set (fst st') \<subseteq> set (fst st)"
  by (rule ms_rel[where R = "\<lambda>a b. set a \<subseteq> set b"]) auto

lemma ms_Plus_unfold:
  "st' \<in> set (ms (Plus a) (s, caps)) \<Longrightarrow>
     \<exists>x \<in> set (ms a (s, caps)). st' = x \<or> (length (fst x) < length s \<and> st' \<in> set (ms (Plus a) x))"
proof -
  assume "st' \<in> set (ms (Plus a) (s, caps))"
  then have "st' \<in> (\<Union>x\<in>set (ms a (s, caps)). set ((\<lambda>(s', caps').
        if length s' < length s then ms (Plus a) (s', caps') @ [(s', caps')] else [(s', caps')]) x))"
    by (subst (asm) ms.simps) (simp only: set_concat set_map image_image)
  then obtain x where m: "x \<in> set (ms a (s, caps))"
    and r0: "st' \<in> set ((\<lambda>(s', caps').
        if length s' < length s then ms (Plus a) (s', caps') @ [(s', caps')] else [(s', caps')]) x)"
    by (simp only: UN_iff) (erule bexE)
  obtain s1 c1 where xeq: "x = (s1, c1)" by (cases x)
  from r0 have r: "st' \<in> set (if length s1 < length s then ms (Plus a) (s1, c1) @ [(s1, c1)] else [(s1, c1)])"
    by (simp only: xeq prod.case)
  have "st' = x \<or> (length (fst x) < length s \<and> st' \<in> set (ms (Plus a) x))"
  proof (cases "length s1 < length s")
    case True
    with r have "st' \<in> set (ms (Plus a) (s1, c1)) \<or> st' \<in> set [(s1, c1)]"
      by (simp only: if_True set_append Un_iff)
    with True show ?thesis by (auto simp only: xeq fst_conv list.set insert_iff empty_iff)
  next
    case False
    with r have "st' = (s1, c1)" by (simp only: if_False) simp
    then show ?thesis by (simp only: xeq simp_thms)
  qed
  with m show ?thesis by blast
qed

lemma ms_Plus_Class_shorter:
  assumes "st' \<in> set (ms (Plus (Class neg rs)) (s, caps))"
  shows "length (fst st') < length s"
proof -
  from ms_Plus_unfold[OF assms] obtain x where x: "x \<in> set (ms (Class neg rs) (s, caps))"
    and d: "st' = x \<or> (length (fst x) < length s \<and> st' \<in> set (ms (Plus (Class neg rs)) x))"
    by blast
  from x have lx: "length (fst x) < length s"
    by (cases s) (simp_all split: if_splits)
  from d show ?thesis
  proof
    assume "st' = x" with lx show ?thesis by simp
  next
    assume "length (fst x) < length s \<and> st' \<in> set (ms (Plus (Class neg rs)) x)"
    then have "length (fst st') \<le> length (fst x)" using ms_length by blast
    with lx show ?thesis by simp
  qed
qed

lemma ms_Group_Plus_captured:
  assumes "st' \<in> set (ms (Group n (Plus (Class neg rs))) st)"
  shows "captured n (snd st')"
proof -
  obtain s caps where st: "st = (s, caps)" by (cases st)
  from assms obtain x where x: "x \<in> set (ms (Plus (Class neg rs)) (s, caps))"
     and e: "st' = (\<lambda>(s', caps'). (s', (n, take (length s - length s') s) # caps')) x"
    unfolding st by (subst (asm) ms.simps) (simp only: set_map image_iff, erule bexE)
  have "length (fst x) < length s" using x by (rule ms_Plus_Class_shorter)
  then have "take (length s - length (fst x)) s \<noteq> []" by (cases s) simp_all
  moreover from e have "map_of (snd st') n = Some (take (length s - length (fst x)) s)"
    by (cases x) simp
  ultimately show ?thesis unfolding captured_def by simp
qed

lemma ms_Seq_last:
  assumes "\<And>x y. y \<in> set (ms b x) \<Longrightarrow> Q y" and "y \<in> set (ms (Seq a b) st)"
  shows "Q y"
proof -
  from assms(2) obtain x where "y \<in> set (ms b x)"
    by (simp only: ms.simps set_concat set_map) blast
  then show ?thesis by (rule assms(1))
qed

lemma ms_Alt_cases:
  assumes "y \<in> set (ms (Alt a b) st)"
  shows "y \<in> set (ms a st) \<or> y \<in> set (ms b st)"
  using assms by (simp only: ms.simps set_append Un_iff)

lemma search_from_ms:
  "search r s = Some m \<Longrightarrow> \<exists>t st'. st' \<in> set (ms r (t, [])) \<and> snd m = snd st'"
proof (induction s)
  case Nil
  show ?case
  proof (cases "ms r ([], [])")
    case Nil
    with Nil.prems show ?thesis by (subst (asm) search.simps) simp
  next
    case (Cons x xs)
    with Nil.prems have "snd m = snd x"
      by (subst (asm) search.simps) (auto split: prod.splits)
    moreover have "x \<in> set (ms r ([], []))" using Cons by simp
    ultimately show ?thesis by blast
  qed
next
  case (Cons c t)
  show ?case
  proof (cases "ms r (c # t, [])")
    case Nil
    with Cons.prems have "search r t = Some m" by (subst (asm) search.simps) simp
    then show ?thesis by (rule Cons.IH)
  next
    case (Cons x xs)
    with Cons.prems have "snd m = snd x"
      by (subst (asm) search.simps) (auto split: prod.splits)
    moreover have "x \<in> set (ms r (c # t, []))" using Cons by simp
    ultimately show ?thesis by blast
  qed
qed

lemma instagram_captured: "st' \<in> set (ms instagram_pattern st) \<Longrightarrow> captured 2 (snd st')"
  unfolding instagram_pattern_def id_class_def seqs.simps
  by (erule ms_Seq_last[rotated])+ (rule ms_Group_Plus_captured)

lemma youtube_captured: "st' \<in> set (ms youtube_pattern st) \<Longrightarrow> captured 1 (snd st')"
  unfolding youtube_pattern_def id_class_def seqs.simps
  by (erule ms_Seq_last[rotated])+ (rule ms_Group_Plus_captured)

lemma naver_captured: "st' \<in> set (ms naver_pattern st) \<Longrightarrow> captured 1 (snd st')"
  unfolding naver_pattern_def digit_class_def seqs.simps
  by (erule ms_Seq_last[rotated])+ (rule ms_Group_Plus_captured)

lemma tiktok_canonical_captured:
  "st' \<in> set (ms (seqs [lits ''tiktok.com/@'', Group 1 (Plus not_slash), lits ''/video/'',
                Group 2 (Plus digit_class)]) st) \<Longrightarrow> captured 2 (snd st')"
  unfolding digit_class_def seqs.simps
  by (erule ms_Seq_last[rotated])+ (rule ms_Group_Plus_captured)

lemma tiktok_short_captured:
  "st' \<in> set (ms (seqs [Alt (lits ''vm'') (lits ''vt''), lits ''.tiktok.com/'',
                Group 3 (Plus alnum_class)]) st) \<Longrightarrow> captured 3 (snd st')"
  unfolding alnum_class_def seqs.simps
  by (erule ms_Seq_last[rotated])+ (rule ms_Group_Plus_captured)

lemma tiktok_captured:
  "st' \<in> set (ms tiktok_pattern st) \<Longrightarrow> captured 2 (snd st') \<or> captured 3 (snd st')"
  unfolding tiktok_pattern_def seqs.simps(3) seqs.simps(2)
  apply (erule ms_Seq_last[rotated])+
  apply (drule ms_Alt_cases)
  apply (erule disjE)
   apply (rule disjI1, erule tiktok_canonical_captured[unfolded seqs.simps])
  apply (rule disjI2, erule tiktok_short_captured[unfolded seqs.simps])
  done

lemma search_captured:
  assumes "search r s = Some m" and "\<And>st st'. st' \<in> set (ms r st) \<Longrightarrow> Q (snd st')"
  shows "Q (snd m)"
  using search_from_ms[OF assms(1)] assms(2) by metis

lemma source_names_distinct:
  "str ''instagram'' \<noteq> str ''youtube''" "str ''instagram'' \<noteq> str ''tiktok''"
  "str ''instagram'' \<noteq> str ''naver''" "str ''youtube'' \<noteq> str ''tiktok''"
  "str ''youtube'' \<noteq> str ''naver''" "str ''tiktok'' \<noteq> str ''naver''"
  "str ''youtube'' \<noteq> str ''instagram''" "str ''tiktok'' \<noteq> str ''instagram''"
  "str ''naver'' \<noteq> str ''instagram''" "str ''tiktok'' \<noteq> str ''youtube''"
  "str ''naver'' \<noteq> str ''youtube''" "str ''naver'' \<noteq> str ''tiktok''"
  by (simp_all add: str_def)

lemma classify_fields:
  "videoId (classify now sn cfg t m) = snd (extract_ids sn cfg t m)"
  "creatorHandle (classify now sn cfg t m) = fst (extract_ids sn cfg t m)"
  "source (classify now sn cfg t m) = name cfg"
  "url (classify now sn cfg t m) = t"
  "suggestedTitle (classify now sn cfg t m) = make_suggestedTitle now cfg"
  "isTempTitle (classify now sn cfg t m) = (sn \<noteq> str ''youtube'' \<and> sn \<noteq> str ''instagram'')"
  by (simp_all add: classify_def split: prod.splits)

lemma extract_ids_videoId:
  "snd (extract_ids (str ''instagram'') cfg t m) = grp m 2"
  "snd (extract_ids (str ''youtube'') cfg t m) = grp m 1"
  "snd (extract_ids (str ''tiktok'') cfg t m) = cap_or (cap_or (grp m 2) (grp m 3)) (Some [])"
  "snd (extract_ids (str ''naver'') cfg t m) = grp m 1"
  by (simp_all add: extract_ids_def source_names_distinct split: option.splits)

text \<open>The four outcomes of the loop of parseUrl.\<close>

lemma parse_loop_cases:
  assumes "parse_loop now t URL_PATTERNS = Some c"
  obtains (instagram) m where "search instagram_pattern t = Some m"
      "c = classify now (str ''instagram'') (snd (URL_PATTERNS ! 0)) t m"
  | (youtube) m where "search instagram_pattern t = None" "search youtube_pattern t = Some m"
      "c = classify now (str ''youtube'') (snd (URL_PATTERNS ! 1)) t m"
  | (tiktok) m where "search instagram_pattern t = None" "search youtube_pattern t = None"
      "search tiktok_pattern t = Some m"
      "c = classify now (str ''tiktok'') (snd (URL_PATTERNS ! 2)) t m"
  | (naver) m where "search instagram_pattern t = None" "search youtube_pattern t = None"
      "search tiktok_pattern t = None" "search naver_pattern t = Some m"
      "c = classify now (str ''naver'') (snd (URL_PATTERNS ! 3)) t m"
  using assms unfolding URL_PATTERNS_def
  by (auto split: option.splits)

lemma parseUrl_Some:
  assumes "parseUrl now u = Inr (Some c)"
  obtains s where "u = VStr s" "s \<noteq> []" "parse_loop now (trim s) URL_PATTERNS = Some c"
  using assms unfolding parseUrl_def
  by (cases u) (auto split: if_splits)

section \<open>Properties of parseUrl\<close>

lemmas eval_defs = regex_defs parse_defs

text \<open>
  Claim C6. Whenever \<open>parseUrl\<close> returns a classification, its \<open>videoId\<close> is a
  string and is not empty, on each of the four platforms.
\<close>

theorem parseUrl_videoId_nonempty:
  assumes "parseUrl now u = Inr (Some c)"
  shows "\<exists>v. videoId c = Some v \<and> v \<noteq> []"
proof -
  from assms obtain s where "parse_loop now (trim s) URL_PATTERNS = Some c"
    by (rule parseUrl_Some)
  then show ?thesis
  proof (cases rule: parse_loop_cases)
    case (instagram m)
    have "captured 2 (snd m)"
      using instagram(1) instagram_captured by (rule search_captured)
    then show ?thesis
      by (simp add: instagram(2) classify_fields extract_ids_videoId grp_def captured_def)
  next
    case (youtube m)
    have "captured 1 (snd m)"
      using youtube(2) youtube_captured by (rule search_captured)
    then show ?thesis
      by (simp add: youtube(3) classify_fields extract_ids_videoId grp_def captured_def)
  next
    case (tiktok m)
    have "captured 2 (snd m) \<or> captured 3 (snd m)"
      using tiktok(3) tiktok_captured by (rule search_captured)
    then show ?thesis
      by (auto simp add: tiktok(4) classify_fields extract_ids_videoId grp_def captured_def cap_or_def
            split: option.splits)
  next
    case (naver m)
    have "captured 1 (snd m)"
      using naver(4) naver_captured by (rule search_captured)
    then show ?thesis
      by (simp add: naver(5) classify_fields extract_ids_videoId grp_def captured_def)
  qed
qed

theorem parseUrl_videoId_nonempty_witness:
  "\<exists>c v. parseUrl \<lparr>getMonth = 10, getDate = 3\<rparr> (VStr (str ''https://vm.tiktok.com/ZS8abcd/'')) = Inr (Some c)
     \<and> videoId c = Some v \<and> v \<noteq> []"
proof -
  obtain c where h: "parseUrl \<lparr>getMonth = 10, getDate = 3\<rparr> (VStr (str ''https://vm.tiktok.com/ZS8abcd/'')) = Inr (Some c)"
    by (simp add: eval_defs)
  from parseUrl_videoId_nonempty[OF h] h show ?thesis by blast
qed

text \<open>
  Claim C8. \<open>parseUrl\<close> classifies \<open>https://instagram.com/reel/ABC123\<close> as platform
  instagram with id \<open>ABC123\<close> and an empty creator handle, and returns \<open>null\<close> for
  the profile URL \<open>https://instagram.com/someuser\<close>.
\<close>

theorem parseUrl_instagram_examples:
  "(\<exists>c. parseUrl now (VStr (str ''https://instagram.com/reel/ABC123'')) = Inr (Some c)
      \<and> source c = str ''instagram'' \<and> videoId c = Some (str ''ABC123'') \<and> creatorHandle c = [])
   \<and> parseUrl now (VStr (str ''https://instagram.com/someuser'')) = Inr None"
  by (simp add: eval_defs)

lemma parseUrl_legacy_Some:
  assumes "parseUrl_legacy now u = Inr (Some c)"
  obtains s where "u = VStr s" "s \<noteq> []" "parse_loop_legacy now (trim s) URL_PATTERNS_legacy = Some c"
  using assms unfolding parseUrl_legacy_def
  by (cases u) (auto split: if_splits)

lemma classify_legacy_fields:
  "source (classify_legacy now sn cfg t m) = name cfg"
  "isTempTitle (classify_legacy now sn cfg t m) = (sn \<noteq> str ''youtube'')"
  by (simp_all add: classify_legacy_def split: prod.splits)

lemma parse_loop_legacy_fields:
  assumes "parse_loop_legacy now t URL_PATTERNS_legacy = Some c"
  shows "source c \<in> {str ''instagram'', str ''youtube'', str ''tiktok'', str ''naver''}
       \<and> (isTempTitle c \<longleftrightarrow> source c \<noteq> str ''youtube'')"
  using assms unfolding URL_PATTERNS_legacy_def
  by (auto simp: classify_legacy_fields source_names_distinct split: option.splits)

text \<open>
  Claim C2, as amended. Whenever \<open>parseUrl\<close> of the current module returns a
  classification, its platform is one of the four registered ones and \<open>isTempTitle\<close> is
  true exactly for tiktok and naver, hence false for youtube and instagram. Whenever
  \<open>parseUrl\<close> of the older copy returns a classification, its platform is one of the
  same four and \<open>isTempTitle\<close> is true exactly when the platform is not youtube, so it is
  true for instagram as well.
\<close>

theorem parseUrl_isTempTitle:
  "(parseUrl now u = Inr (Some c) \<longrightarrow>
      source c \<in> {str ''instagram'', str ''youtube'', str ''tiktok'', str ''naver''}
      \<and> (isTempTitle c \<longleftrightarrow> source c = str ''tiktok'' \<or> source c = str ''naver'')
      \<and> (source c = str ''youtube'' \<or> source c = str ''instagram'' \<longrightarrow> \<not> isTempTitle c))
   \<and> (parseUrl_legacy now u = Inr (Some c') \<longrightarrow>
      source c' \<in> {str ''instagram'', str ''youtube'', str ''tiktok'', str ''naver''}
      \<and> (isTempTitle c' \<longleftrightarrow> source c' \<noteq> str ''youtube'')
      \<and> (source c' = str ''instagram'' \<longrightarrow> isTempTitle c'))"
proof (intro conjI impI)
  assume a: "parseUrl now u = Inr (Some c)"
  from a obtain s where "parse_loop now (trim s) URL_PATTERNS = Some c"
    by (rule parseUrl_Some)
  then have r: "source c \<in> {str ''instagram'', str ''youtube'', str ''tiktok'', str ''naver''}
       \<and> (isTempTitle c \<longleftrightarrow> source c = str ''tiktok'' \<or> source c = str ''naver'')
       \<and> (source c = str ''youtube'' \<or> source c = str ''instagram'' \<longrightarrow> \<not> isTempTitle c)"
    by (cases rule: parse_loop_cases)
       (simp_all add: classify_fields URL_PATTERNS_def source_names_distinct)
  from r show "source c \<in> {str ''instagram'', str ''youtube'', str ''tiktok'', str ''naver''}" by simp
  from r show "isTempTitle c \<longleftrightarrow> source c = str ''tiktok'' \<or> source c = str ''naver''" by simp
  assume "source c = str ''youtube'' \<or> source c = str ''instagram''"
  with r show "\<not> isTempTitle c" by blast
next
  assume a: "parseUrl_legacy now u = Inr (Some c')"
  from a obtain s where "parse_loop_legacy now (trim s) URL_PATTERNS_legacy = Some c'"
    by (rule parseUrl_legacy_Some)
  from parse_loop_legacy_fields[OF this]
  have r: "source c' \<in> {str ''instagram'', str ''youtube'', str ''tiktok'', str ''naver''}
       \<and> (isTempTitle c' \<longleftrightarrow> source c' \<noteq> str ''youtube'')" .
  from r show "source c' \<in> {str ''instagram'', str ''youtube'', str ''tiktok'', str ''naver''}" by simp
  from r show "isTempTitle c' \<longleftrightarrow> source c' \<noteq> str ''youtube''" by simp
  assume "source c' = str ''instagram''"
  with r show "isTempTitle c'" by (simp add: source_names_distinct)
qed

lemmas legacy_defs = parseUrl_legacy_def URL_PATTERNS_legacy_def classify_legacy_def
  tiktok_pattern_legacy_def

text \<open>
  Claim C2 as stated fails on the older copy of the module, which the claim cites too:
  there an Instagram reel is classified with \<open>isTempTitle\<close> true.
\<close>

theorem parseUrl_isTempTitle_counterexample:
  "\<exists>c. parseUrl_legacy \<lparr>getMonth = 10, getDate = 3\<rparr> (VStr (str ''https://instagram.com/reel/ABC123''))
          = Inr (Some c)
     \<and> source c = str ''instagram'' \<and> isTempTitle c"
  by (simp add: legacy_defs eval_defs)

theorem parseUrl_isTempTitle_witness:
  "(\<exists>c. parseUrl \<lparr>getMonth = 10, getDate = 3\<rparr> (VStr (str ''https://m.tv.naver.com/v/12345'')) = Inr (Some c)
      \<and> source c = str ''naver'' \<and> isTempTitle c)
   \<and> (\<exists>c. parseUrl \<lparr>getMonth = 10, getDate = 3\<rparr> (VStr (str ''https://instagram.com/reel/ABC123'')) = Inr (Some c)
      \<and> source c = str ''instagram'' \<and> \<not> isTempTitle c)
   \<and> (\<exists>c. parseUrl_legacy \<lparr>getMonth = 10, getDate = 3\<rparr> (VStr (str ''https://m.tv.naver.com/v/12345''))
             = Inr (Some c)
      \<and> source c = str ''naver'' \<and> isTempTitle c)
   \<and> (\<exists>c. parseUrl_legacy \<lparr>getMonth = 10, getDate = 3\<rparr> (VStr (str ''https://youtu.be/dQw4w9WgXcQ''))
             = Inr (Some c)
      \<and> source c = str ''youtube'' \<and> \<not> isTempTitle c)"
proof -
  let ?now = "\<lparr>getMonth = 10, getDate = 3\<rparr>"
  obtain c where h: "parseUrl ?now (VStr (str ''https://m.tv.naver.com/v/12345'')) = Inr (Some c)"
    and n: "source c = str ''naver''"
    by (simp add: eval_defs)
  from parseUrl_isTempTitle[of ?now _ c, THEN conjunct1, rule_format, OF h] n
  have t: "isTempTitle c" by simp
  obtain c' where h': "parseUrl ?now (VStr (str ''https://instagram.com/reel/ABC123'')) = Inr (Some c')"
    and n': "source c' = str ''instagram''"
    by (simp add: eval_defs)
  from parseUrl_isTempTitle[of ?now _ c', THEN conjunct1, rule_format, OF h'] n'
  have t': "\<not> isTempTitle c'"
    by (simp add: source_names_distinct)
  obtain d where k: "parseUrl_legacy ?now (VStr (str ''https://m.tv.naver.com/v/12345'')) = Inr (Some d)"
    and o: "source d = str ''naver''"
    by (simp add: legacy_defs eval_defs)
  from parseUrl_isTempTitle[of ?now _ _ d, THEN conjunct2, rule_format, OF k] o
  have v: "isTempTitle d" by (simp add: source_names_distinct)
  obtain d' where k': "parseUrl_legacy ?now (VStr (str ''https://youtu.be/dQw4w9WgXcQ'')) = Inr (Some d')"
    and o': "source d' = str ''youtube''"
    by (simp add: legacy_defs eval_defs)
  from parseUrl_isTempTitle[of ?now _ _ d', THEN conjunct2, rule_format, OF k'] o'
  have v': "\<not> isTempTitle d'" by simp
  from h n t h' n' t' k o v k' o' v' show ?thesis by blast
qed

text \<open>
  Claim C3, as amended. \<open>parseUrl\<close> of the current module classifies the canonical TikTok
  URL \<open>https://www.tiktok.com/@chef.kim/video/7123456789012345678\<close> as platform tiktok
  with that numeric id and creator handle \<open>@chef.kim\<close>, and the short link
  \<open>https://vt.tiktok.com/ZS8abcd/\<close> as platform tiktok with id \<open>ZS8abcd\<close> and an empty
  creator handle, whatever the date. \<open>parseUrl\<close> of the older copy classifies the
  canonical URL in the same way and returns \<open>null\<close> for the \<open>vt\<close> short link; the short
  link it classifies is the one on the host \<open>vm\<close>.
\<close>

theorem parseUrl_tiktok_examples:
  "(\<exists>c. parseUrl now (VStr (str ''https://www.tiktok.com/@chef.kim/video/7123456789012345678'')) = Inr (Some c)
      \<and> source c = str ''tiktok'' \<and> videoId c = Some (str ''7123456789012345678'')
      \<and> creatorHandle c = str ''@chef.kim'')
   \<and> (\<exists>c. parseUrl now (VStr (str ''https://vt.tiktok.com/ZS8abcd/'')) = Inr (Some c)
      \<and> source c = str ''tiktok'' \<and> videoId c = Some (str ''ZS8abcd'') \<and> creatorHandle c = [])
   \<and> (\<exists>c. parseUrl_legacy now (VStr (str ''https://www.tiktok.com/@chef.kim/video/7123456789012345678''))
             = Inr (Some c)
      \<and> source c = str ''tiktok'' \<and> videoId c = Some (str ''7123456789012345678'')
      \<and> creatorHandle c = str ''@chef.kim'')
   \<and> parseUrl_legacy now (VStr (str ''https://vt.tiktok.com/ZS8abcd/'')) = Inr None
   \<and> (\<exists>c. parseUrl_legacy now (VStr (str ''https://vm.tiktok.com/ZS8abcd/'')) = Inr (Some c)
      \<and> source c = str ''tiktok'' \<and> videoId c = Some (str ''ZS8abcd'') \<and> creatorHandle c = [])"
proof -
  have a: "\<exists>c. parseUrl now (VStr (str ''https://www.tiktok.com/@chef.kim/video/7123456789012345678'')) = Inr (Some c)
      \<and> source c = str ''tiktok'' \<and> videoId c = Some (str ''7123456789012345678'')
      \<and> creatorHandle c = str ''@chef.kim''"
    by (simp add: eval_defs)
  have b: "\<exists>c. parseUrl now (VStr (str ''https://vt.tiktok.com/ZS8abcd/'')) = Inr (Some c)
      \<and> source c = str ''tiktok'' \<and> videoId c = Some (str ''ZS8abcd'') \<and> creatorHandle c = []"
    by (simp add: eval_defs)
  have c: "\<exists>c. parseUrl_legacy now (VStr (str ''https://www.tiktok.com/@chef.kim/video/7123456789012345678''))
             = Inr (Some c)
      \<and> source c = str ''tiktok'' \<and> videoId c = Some (str ''7123456789012345678'')
      \<and> creatorHandle c = str ''@chef.kim''"
    by (simp add: legacy_defs eval_defs)
  have d: "parseUrl_legacy now (VStr (str ''https://vt.tiktok.com/ZS8abcd/'')) = Inr None"
    by (simp add: legacy_defs eval_defs)
  have e: "\<exists>c. parseUrl_legacy now (VStr (str ''https://vm.tiktok.com/ZS8abcd/'')) = Inr (Some c)
      \<and> source c = str ''tiktok'' \<and> videoId c = Some (str ''ZS8abcd'') \<and> creatorHandle c = []"
    by (simp add: legacy_defs eval_defs)
  from a b c d e show ?thesis by blast
qed

text \<open>
  Claim C3 as stated fails on the older copy of the module, which the claim cites too:
  its TikTok pattern has no \<open>vt\<close> host, no other pattern matches the short link, and
  \<open>parseUrl\<close> returns \<open>null\<close>.
\<close>

theorem parseUrl_tiktok_counterexample:
  "parseUrl_legacy \<lparr>getMonth = 10, getDate = 3\<rparr> (VStr (str ''https://vt.tiktok.com/ZS8abcd/'')) = Inr None"
  by (simp add: legacy_defs eval_defs)

lemma trim_all_ws: "\<forall>c\<in>set s. is_ws c \<Longrightarrow> trim s = []"
  by (auto simp: trim_def dest: set_dropWhileD)

lemma parse_loop_no_match:
  "\<forall>e\<in>set ps. search (pattern (snd e)) t = None \<Longrightarrow> parse_loop now t ps = None"
  by (induction ps) auto

lemma no_pattern_matches_empty:
  "\<forall>e\<in>set URL_PATTERNS. search (pattern (snd e)) [] = None"
  by (simp add: URL_PATTERNS_def search_Nil regex_defs)

text \<open>
  Claim C5. On a string argument \<open>parseUrl\<close> never throws, and it returns \<open>null\<close>
  when the string is empty, consists of whitespace only, or matches no registered
  pattern after trimming.
\<close>

theorem parseUrl_null_never_throws:
  "(\<exists>r. parseUrl now (VStr s) = Inr r)
   \<and> (s = [] \<or> (\<forall>c\<in>set s. is_ws c) \<or> (\<forall>e\<in>set URL_PATTERNS. search (pattern (snd e)) (trim s) = None)
        \<longrightarrow> parseUrl now (VStr s) = Inr None)"
proof -
  have "parseUrl now (VStr s) = Inr None"
    if "s = [] \<or> (\<forall>c\<in>set s. is_ws c) \<or> (\<forall>e\<in>set URL_PATTERNS. search (pattern (snd e)) (trim s) = None)"
  proof -
    from that consider "s = []" | "s \<noteq> []" "\<forall>c\<in>set s. is_ws c"
      | "s \<noteq> []" "\<forall>e\<in>set URL_PATTERNS. search (pattern (snd e)) (trim s) = None"
      by blast
    then show ?thesis
    proof cases
      case 1
      then show ?thesis by (simp add: parseUrl_def)
    next
      case 2
      then have "trim s = []" by (simp add: trim_all_ws)
      then have "parse_loop now (trim s) URL_PATTERNS = None"
        using no_pattern_matches_empty by (simp add: parse_loop_no_match)
      with 2 show ?thesis by (simp add: parseUrl_def)
    next
      case 3
      then have "parse_loop now (trim s) URL_PATTERNS = None"
        by (simp add: parse_loop_no_match)
      with 3 show ?thesis by (simp add: parseUrl_def)
    qed
  qed
  moreover have "\<exists>r. parseUrl now (VStr s) = Inr r"
    by (simp add: parseUrl_def)
  ultimately show ?thesis by blast
qed

theorem parseUrl_null_never_throws_witness:
  "parseUrl \<lparr>getMonth = 10, getDate = 3\<rparr> (VStr []) = Inr None
   \<and> parseUrl \<lparr>getMonth = 10, getDate = 3\<rparr> (VStr (str '' '')) = Inr None
   \<and> parseUrl \<lparr>getMonth = 10, getDate = 3\<rparr> (VStr (str '' https://example.com/foo'')) = Inr None"
proof -
  have w: "\<forall>c\<in>set (str '' ''). is_ws c" by (simp add: str_def is_ws_def)
  have n: "\<forall>e\<in>set URL_PATTERNS. search (pattern (snd e)) (trim (str '' https://example.com/foo'')) = None"
    by (simp add: eval_defs)
  from parseUrl_null_never_throws[of "\<lparr>getMonth = 10, getDate = 3\<rparr>" "[]"]
       parseUrl_null_never_throws[of "\<lparr>getMonth = 10, getDate = 3\<rparr>" "str '' ''"] w
       parseUrl_null_never_throws[of "\<lparr>getMonth = 10, getDate = 3\<rparr>" "str '' https://example.com/foo''"] n
  show ?thesis by blast
qed

text \<open>
  Claim C10. On every string \<open>isValidUrl\<close> returns a boolean, and that boolean is true
  exactly when \<open>parseUrl\<close> returns a classification for the same string.
\<close>

theorem isValidUrl_iff_parseUrl:
  "isValidUrl now (VStr s) = Inr (\<exists>c. parseUrl now (VStr s) = Inr (Some c))"
  by (auto simp add: isValidUrl_def parseUrl_def split: sum.splits)

theorem isValidUrl_iff_parseUrl_witness:
  "isValidUrl \<lparr>getMonth = 10, getDate = 3\<rparr> (VStr (str ''youtu.be/dQw4w9WgXcQ'')) = Inr True
   \<and> isValidUrl \<lparr>getMonth = 10, getDate = 3\<rparr> (VStr (str ''https://example.com/foo'')) = Inr False"
proof -
  have a: "\<exists>c. parseUrl \<lparr>getMonth = 10, getDate = 3\<rparr> (VStr (str ''youtu.be/dQw4w9WgXcQ'')) = Inr (Some c)"
    by (simp add: eval_defs)
  have b: "\<not> (\<exists>c. parseUrl \<lparr>getMonth = 10, getDate = 3\<rparr> (VStr (str ''https://example.com/foo'')) = Inr (Some c))"
    by (simp add: eval_defs)
  show ?thesis
    using isValidUrl_iff_parseUrl[of "\<lparr>getMonth = 10, getDate = 3\<rparr>" "str ''youtu.be/dQw4w9WgXcQ''"]
          isValidUrl_iff_parseUrl[of "\<lparr>getMonth = 10, getDate = 3\<rparr>" "str ''https://example.com/foo''"]
          a b by simp
qed

subsection \<open>The three YouTube forms\<close>

lemma unat_to_upper:
  "unat (to_upper c) = (if 97 \<le> unat c \<and> unat c \<le> 122 then unat c - 32 else unat c)"
  by (simp add: to_upper_def unat_sub word_le_nat_alt)

lemma in_ranges_class_matches: "in_ranges rs c \<Longrightarrow> class_matches False rs c"
proof -
  assume a: "in_ranges rs c"
  have "to_upper c = c \<or> to_lower c = c" by (auto simp: to_upper_def to_lower_def)
  with a show ?thesis by (auto simp: class_matches_def)
qed

lemma id_ranges_unat:
  "in_ranges id_ranges c \<longleftrightarrow>
     (65 \<le> unat c \<and> unat c \<le> 90) \<or> (97 \<le> unat c \<and> unat c \<le> 122)
     \<or> (48 \<le> unat c \<and> unat c \<le> 57) \<or> unat c = 95 \<or> unat c = 45"
  by (auto simp: in_ranges_def id_ranges_def rng_def)

lemma id_not_ws: "in_ranges id_ranges c \<Longrightarrow> \<not> is_ws c"
  by (auto simp: id_ranges_unat is_ws_def Let_def)

lemma id_not_punct:
  assumes "in_ranges id_ranges c" and "punct p"
  shows "to_upper c \<noteq> to_upper (of_char p)"
proof
  assume "to_upper c = to_upper (of_char p)"
  then have "unat (to_upper c) = unat (to_upper (of_char p :: cu))" by simp
  with assms show False
    by (auto simp: unat_to_upper id_ranges_unat punct_def split: if_splits)
qed

lemma ms_Lit_id_punct:
  "\<forall>c\<in>set s. in_ranges id_ranges c \<Longrightarrow> punct p \<Longrightarrow> ms (Lit (of_char p)) (s, caps) = []"
  by (cases s) (auto dest: id_not_punct)

lemma id_only_ms: "id_only (fst st) \<Longrightarrow> st' \<in> set (ms r st) \<Longrightarrow> id_only (fst st')"
  using ms_subset[of st' r st] by (auto simp: id_only_def list_all_iff)

text \<open>A literal text holding a dot, a colon or a slash cannot be read from an id.\<close>

lemma lits_dead:
  "id_only s \<Longrightarrow> \<exists>p\<in>set w. punct p \<Longrightarrow> ms (lits w) (s, caps) = []"
proof (induction w arbitrary: s rule: lits.induct)
  case 1
  then show ?case by simp
next
  case (2 c)
  then show ?case by (simp add: id_only_def list_all_iff ms_Lit_id_punct del: ms.simps)
next
  case (3 c d cs)
  show ?case
  proof (cases s)
    case Nil
    then show ?thesis by simp
  next
    case (Cons x t)
    show ?thesis
    proof (cases "punct c")
      case True
      then have "ms (Lit (of_char c)) (s, caps) = []"
        using 3(2) by (simp add: id_only_def list_all_iff ms_Lit_id_punct del: ms.simps)
      then show ?thesis by simp
    next
      case False
      with 3(3) have "\<exists>p\<in>set (d # cs). punct p" by auto
      moreover have "id_only t" using 3(2) Cons by (simp add: id_only_def)
      ultimately have "ms (lits (d # cs)) (t, caps) = []" by (rule 3(1)[rotated])
      then show ?thesis using Cons by simp
    qed
  qed
qed

lemma ms_Seq_dead_left: "ms a st = [] \<Longrightarrow> ms (Seq a b) st = []"
  by simp

lemma ms_Seq_dead_right: "(\<And>x. x \<in> set (ms a st) \<Longrightarrow> ms b x = []) \<Longrightarrow> ms (Seq a b) st = []"
  by simp

lemma instagram_dead:
  assumes "id_only s"
  shows "ms instagram_pattern (s, caps) = []"
  unfolding instagram_pattern_def seqs.simps
proof (rule ms_Seq_dead_right, rule ms_Seq_dead_right, rule ms_Seq_dead_left)
  fix x y
  assume x: "x \<in> set (ms scheme (s, caps))" and y: "y \<in> set (ms (Opt (lits ''www.'')) x)"
  have "id_only (fst x)" using assms x id_only_ms[of "(s, caps)" x scheme] by simp
  then have "id_only (fst y)" using y by (rule id_only_ms)
  then have "ms (lits ''instagram.com/'') (fst y, snd y) = []"
    by (rule lits_dead) (simp add: punct_def)
  then show "ms (lits ''instagram.com/'') y = []" by simp
qed

lemma search_dead:
  assumes "\<And>t. id_only t \<Longrightarrow> ms r (t, []) = []"
  shows "id_only s \<Longrightarrow> search r s = None"
proof (induction s)
  case Nil
  then show ?case using assms[of "[]"] by (simp add: search_Nil)
next
  case (Cons c t)
  then have "id_only t" by (simp add: id_only_def)
  then have "search r t = None" by (rule Cons.IH)
  then show ?case using assms[OF Cons.prems] by (simp add: search_Cons)
qed

lemma search_instagram_id_only: "id_only s \<Longrightarrow> search instagram_pattern s = None"
  by (rule search_dead) (rule instagram_dead)

lemma ms_Plus_Class_Cons:
  "ms (Plus (Class neg rs)) (c # t, caps) =
     (if class_matches neg rs c then ms (Plus (Class neg rs)) (t, caps) @ [(t, caps)] else [])"
  by (subst ms.simps) (simp del: ms.simps(7))

lemma ms_Plus_Class_Nil: "ms (Plus (Class neg rs)) ([], caps) = []"
  by (subst ms.simps) simp

text \<open>On a text of class members only, the greedy \<open>+\<close> first reads all of it.\<close>

lemma ms_Plus_Class_all:
  "s \<noteq> [] \<Longrightarrow> \<forall>c\<in>set s. class_matches neg rs c \<Longrightarrow>
     \<exists>rest. ms (Plus (Class neg rs)) (s, caps) = ([], caps) # rest"
proof (induction s)
  case Nil
  then show ?case by simp
next
  case (Cons c t)
  show ?case
  proof (cases t)
    case Nil
    then show ?thesis using Cons.prems by (simp add: ms_Plus_Class_Cons ms_Plus_Class_Nil del: ms.simps)
  next
    case (Cons d u)
    then obtain rest where "ms (Plus (Class neg rs)) (t, caps) = ([], caps) # rest"
      using Cons.IH Cons.prems by auto
    then show ?thesis using Cons.prems by (simp add: ms_Plus_Class_Cons del: ms.simps)
  qed
qed

lemma ms_id_group:
  assumes "xyz \<noteq> []" and "id_only xyz"
  shows "\<exists>rest. ms (Group 1 (Plus id_class)) (xyz, []) = ([], [(1, xyz)]) # rest"
proof -
  have "\<forall>c\<in>set xyz. class_matches False id_ranges c"
    using assms(2) by (simp add: id_only_def list_all_iff in_ranges_class_matches)
  with assms(1) obtain rest where "ms (Plus (Class False id_ranges)) (xyz, []) = ([], []) # rest"
    using ms_Plus_Class_all by blast
  then show ?thesis by (simp add: id_class_def del: ms.simps(7))
qed

lemma youtube_prefix_ms:
  "ms youtube_pattern (str ''youtube.com/watch?v='' @ xyz, []) = ms (Group 1 (Plus id_class)) (xyz, [])"
  "ms youtube_pattern (str ''youtu.be/'' @ xyz, []) = ms (Group 1 (Plus id_class)) (xyz, [])"
  "ms youtube_pattern (str ''youtube.com/shorts/'' @ xyz, []) = ms (Group 1 (Plus id_class)) (xyz, [])"
  by (simp_all add: youtube_pattern_def scheme_def str_def to_upper_def del: ms.simps(7) ms.simps(8))

lemma instagram_prefix_search:
  "search instagram_pattern (str ''youtube.com/watch?v='' @ xyz) = search instagram_pattern xyz"
  "search instagram_pattern (str ''youtu.be/'' @ xyz) = search instagram_pattern xyz"
  "search instagram_pattern (str ''youtube.com/shorts/'' @ xyz) = search instagram_pattern xyz"
  by (simp_all add: search_Cons instagram_pattern_def scheme_def str_def to_upper_def
        del: ms.simps(7) ms.simps(8))

lemma trim_no_ws:
  assumes "s \<noteq> []" and "\<not> is_ws (hd s)" and "\<not> is_ws (last s)"
  shows "trim s = s"
proof -
  have a: "dropWhile is_ws s = s" using assms(1,2) by (cases s) simp_all
  have "rev s \<noteq> []" "\<not> is_ws (hd (rev s))" using assms(1,3) by (simp_all add: hd_rev)
  then have "dropWhile is_ws (rev s) = rev s" by (cases "rev s") simp_all
  with a show ?thesis by (simp add: trim_def)
qed

lemma parseUrl_youtube_prefix:
  assumes "xyz \<noteq> []" and "id_only xyz" and "p \<noteq> []" and "\<not> is_ws (hd p)"
    and "search instagram_pattern (p @ xyz) = search instagram_pattern xyz"
    and "ms youtube_pattern (p @ xyz, []) = ms (Group 1 (Plus id_class)) (xyz, [])"
  shows "\<exists>c. parseUrl now (VStr (p @ xyz)) = Inr (Some c) \<and> source c = str ''youtube''
           \<and> videoId c = Some xyz"
proof -
  have "\<not> is_ws (last (p @ xyz))"
    using assms(1,2) by (simp add: id_only_def list_all_iff id_not_ws)
  moreover have "\<not> is_ws (hd (p @ xyz))" using assms(3,4) by simp
  ultimately have t: "trim (p @ xyz) = p @ xyz" using assms(3) by (simp add: trim_no_ws)
  have i: "search instagram_pattern (p @ xyz) = None"
    using assms(2,5) by (simp add: search_instagram_id_only)
  obtain rest where "ms youtube_pattern (p @ xyz, []) = ([], [(1, xyz)]) # rest"
    using ms_id_group[OF assms(1,2)] assms(6) by auto
  then have y: "search youtube_pattern (p @ xyz) = Some (p @ xyz, [(1, xyz)])"
    by (subst search.simps) simp
  show ?thesis
    using assms(3) t i y
    by (simp add: parseUrl_def URL_PATTERNS_def classify_fields extract_ids_videoId grp_def)
qed

text \<open>
  Claim C9. For every non-empty id made of code units of the class \<open>[A-Za-z0-9_-]\<close>,
  \<open>parseUrl\<close> classifies \<open>youtube.com/watch?v=ID\<close>, \<open>youtu.be/ID\<close> and
  \<open>youtube.com/shorts/ID\<close> as platform youtube, each with that same id as \<open>videoId\<close>.
\<close>

theorem youtube_variants_same_videoId:
  assumes "xyz \<noteq> []" and "\<forall>c\<in>set xyz. in_ranges id_ranges c"
  shows "(\<exists>c. parseUrl now (VStr (str ''youtube.com/watch?v='' @ xyz)) = Inr (Some c)
            \<and> source c = str ''youtube'' \<and> videoId c = Some xyz)
       \<and> (\<exists>c. parseUrl now (VStr (str ''youtu.be/'' @ xyz)) = Inr (Some c)
            \<and> source c = str ''youtube'' \<and> videoId c = Some xyz)
       \<and> (\<exists>c. parseUrl now (VStr (str ''youtube.com/shorts/'' @ xyz)) = Inr (Some c)
            \<and> source c = str ''youtube'' \<and> videoId c = Some xyz)"
proof -
  have io: "id_only xyz" using assms(2) by (simp add: id_only_def list_all_iff)
  have a: "str ''youtube.com/watch?v='' \<noteq> [] \<and> \<not> is_ws (hd (str ''youtube.com/watch?v=''))"
    by (simp add: str_def is_ws_def)
  have b: "str ''youtu.be/'' \<noteq> [] \<and> \<not> is_ws (hd (str ''youtu.be/''))"
    by (simp add: str_def is_ws_def)
  have c: "str ''youtube.com/shorts/'' \<noteq> [] \<and> \<not> is_ws (hd (str ''youtube.com/shorts/''))"
    by (simp add: str_def is_ws_def)
  show ?thesis
    using parseUrl_youtube_prefix[OF assms(1) io _ _ instagram_prefix_search(1) youtube_prefix_ms(1)]
          parseUrl_youtube_prefix[OF assms(1) io _ _ instagram_prefix_search(2) youtube_prefix_ms(2)]
          parseUrl_youtube_prefix[OF assms(1) io _ _ instagram_prefix_search(3) youtube_prefix_ms(3)]
          a b c
    by blast
qed

theorem youtube_variants_same_videoId_witness:
  "(\<exists>c. parseUrl \<lparr>getMonth = 10, getDate = 3\<rparr> (VStr (str ''youtube.com/watch?v='' @ str ''dQw4w9WgXcQ'')) = Inr (Some c)
            \<and> source c = str ''youtube'' \<and> videoId c = Some (str ''dQw4w9WgXcQ''))
       \<and> (\<exists>c. parseUrl \<lparr>getMonth = 10, getDate = 3\<rparr> (VStr (str ''youtu.be/'' @ str ''dQw4w9WgXcQ'')) = Inr (Some c)
            \<and> source c = str ''youtube'' \<and> videoId c = Some (str ''dQw4w9WgXcQ''))
       \<and> (\<exists>c. parseUrl \<lparr>getMonth = 10, getDate = 3\<rparr> (VStr (str ''youtube.com/shorts/'' @ str ''dQw4w9WgXcQ'')) = Inr (Some c)
            \<and> source c = str ''youtube'' \<and> videoId c = Some (str ''dQw4w9WgXcQ''))"
proof -
  have n: "str ''dQw4w9WgXcQ'' \<noteq> []" by (simp add: str_def)
  have i: "\<forall>c\<in>set (str ''dQw4w9WgXcQ''). in_ranges id_ranges c"
    by (simp add: str_def in_ranges_def id_ranges_def rng_def)
  show ?thesis by (rule youtube_variants_same_videoId[OF n i])
qed

section \<open>The metadata chains\<close>

lemma invidious_loop_all_fail:
  "\<forall>b\<in>set bases. answer net (invidious_request vid b) = None \<Longrightarrow>
     invidious_loop net vid bases = (VNull, map (invidious_request vid) bases)"
proof (induction bases)
  case Nil
  then show ?case by simp
next
  case (Cons b bs)
  then have ih: "invidious_loop net vid bs = (VNull, map (invidious_request vid) bs)" by simp
  from Cons.prems have "answer net (invidious_request vid b) = None" by simp
  then show ?case using ih
    by (auto simp: answer_def Let_def split: option.splits if_splits)
qed

lemma invidious_loop_first_success:
  "k < length bases \<Longrightarrow>
   \<forall>i<k. answer net (invidious_request vid (bases ! i)) = None \<Longrightarrow>
   answer net (invidious_request vid (bases ! k)) = Some v \<Longrightarrow>
     invidious_loop net vid bases = (v, map (invidious_request vid) (take (Suc k) bases))"
proof (induction bases arbitrary: k)
  case Nil
  then show ?case by simp
next
  case (Cons b bs)
  show ?case
  proof (cases k)
    case 0
    with Cons.prems(3) have "answer net (invidious_request vid b) = Some v" by simp
    then show ?thesis using 0
      by (auto simp: answer_def Let_def split: option.splits if_splits prod.splits)
  next
    case (Suc j)
    have f: "answer net (invidious_request vid b) = None" using Cons.prems(2) Suc by auto
    have "j < length bs" using Cons.prems(1) Suc by simp
    moreover have "\<forall>i<j. answer net (invidious_request vid (bs ! i)) = None"
      using Cons.prems(2) Suc by auto
    moreover have "answer net (invidious_request vid (bs ! j)) = Some v"
      using Cons.prems(3) Suc by simp
    ultimately have ih: "invidious_loop net vid bs = (v, map (invidious_request vid) (take (Suc j) bs))"
      by (rule Cons.IH)
    show ?thesis using f ih Suc
      by (auto simp: answer_def Let_def split: option.splits if_splits)
  qed
qed

lemma fetchFromInvidious_all_fail:
  assumes "\<forall>rq. answer net rq = None"
  shows "fetchFromInvidious net vid = (VNull, mirror_requests vid)"
  using assms by (simp add: fetchFromInvidious_def mirror_requests_def invidious_loop_all_fail)

lemma answer_None_fetch:
  "answer net rq = None \<Longrightarrow>
     (case fetch net rq of None \<Rightarrow> True | Some r \<Rightarrow> \<not> ok r \<or> json r = None)"
  by (auto simp: answer_def split: option.splits if_splits)

lemma apify_youtube_tier_fail:
  assumes "\<forall>rq. answer net rq = None"
  shows "fst (apify_youtube_tier net vid tok) = None"
proof (cases "apify_youtube_request vid tok")
  case (Inl e)
  then show ?thesis by (simp add: apify_youtube_tier_def)
next
  case (Inr rq)
  then show ?thesis using answer_None_fetch[OF assms[rule_format, of rq]]
    by (auto simp: apify_youtube_tier_def split: option.splits if_splits)
qed

lemma fetchFromYouTubeAPI_fail:
  assumes "\<forall>rq. answer net rq = None"
  shows "fst (fetchFromYouTubeAPI net vid key) = VNull"
proof (cases "youtube_api_request vid key")
  case (Inl e)
  then show ?thesis by (simp add: fetchFromYouTubeAPI_def)
next
  case (Inr rq)
  then show ?thesis using answer_None_fetch[OF assms[rule_format, of rq]]
    by (auto simp: fetchFromYouTubeAPI_def split: option.splits if_splits)
qed

lemma fetchFromOEmbed_fail:
  assumes "\<forall>rq. answer net rq = None"
  shows "fst (fetchFromOEmbed net vid) = VNull"
proof (cases "encodeURIComponent (str ''https://www.youtube.com/watch?v='' @ vid)")
  case (Inl e)
  then show ?thesis by (simp add: fetchFromOEmbed_def)
next
  case (Inr enc)
  then show ?thesis
    using answer_None_fetch[OF assms[rule_format, of "get_request (str ''https://www.youtube.com/oembed?url='' @ enc
                                  @ str ''&format=json'') None"]]
    by (auto simp: fetchFromOEmbed_def Let_def split: option.splits if_splits)
qed

lemma fetchYouTubeMetadata_fail:
  assumes "\<forall>rq. answer net rq = None"
  shows "fst (fetchYouTubeMetadata net vid key tok) = VNull"
  using apify_youtube_tier_fail[OF assms, of vid tok] fetchFromInvidious_all_fail[OF assms, of vid]
        fetchFromYouTubeAPI_fail[OF assms, of vid key] fetchFromOEmbed_fail[OF assms, of vid]
  by (auto simp: fetchYouTubeMetadata_def Let_def split: prod.splits option.splits)

lemma fetchInstagramMetadata_fail:
  assumes "\<forall>rq. answer net rq = None"
  shows "fst (fetchInstagramMetadata net postId tok) = instagram_fallback postId"
proof (cases "instagram_request postId tok")
  case (Inl e)
  then show ?thesis by (simp add: fetchInstagramMetadata_def)
next
  case (Inr rq)
  then show ?thesis using answer_None_fetch[OF assms[rule_format, of rq]]
    by (auto simp: fetchInstagramMetadata_def split: option.splits if_splits)
qed

lemma fetchTikTokMetadata_fail:
  assumes "\<forall>rq. answer net rq = None"
  shows "fst (fetchTikTokMetadata now net u tok) = tiktok_fallback now u"
proof (cases "tiktok_request u tok")
  case (Inl e)
  then show ?thesis by (simp add: fetchTikTokMetadata_def)
next
  case (Inr rq)
  then show ?thesis using answer_None_fetch[OF assms[rule_format, of rq]]
    by (auto simp: fetchTikTokMetadata_def split: option.splits if_splits)
qed

lemma map_of_put: "map_of (put k v ps) k = Some v"
  by (induction ps) auto

lemma get_with_source: "get (with_source v s) (str ''source'') = vstr s"
  by (simp add: with_source_def map_of_put)

lemma fetchYouTubeMetadata_invidious:
  assumes "fst (apify_youtube_tier net vid tok) = None"
    and "fst (fetchFromInvidious net vid) = v" and "truthy v"
  shows "fetchYouTubeMetadata net vid key tok =
           (with_source v ''invidious'', snd (apify_youtube_tier net vid tok) @ snd (fetchFromInvidious net vid))"
  using assms by (auto simp: fetchYouTubeMetadata_def Let_def split: prod.splits option.splits)

lemma fetchYouTubeMetadata_invidious_falsy:
  assumes "fst (apify_youtube_tier net vid tok) = None"
    and "fst (fetchFromInvidious net vid) = v" and "\<not> truthy v"
  shows "fst (fetchYouTubeMetadata net vid key tok) = after_invidious net vid key"
  using assms
  by (auto simp: fetchYouTubeMetadata_def after_invidious_def Let_def split: prod.splits option.splits)

lemma after_invidious_source:
  "get (after_invidious net vid key) (str ''source'') \<noteq> vstr ''invidious''"
proof -
  have a: "vstr ''youtube_api'' \<noteq> vstr ''invidious''" "vstr ''oembed'' \<noteq> vstr ''invidious''"
    "VUndefined \<noteq> vstr ''invidious''"
    by (simp_all add: vstr_def str_def)
  show ?thesis
    by (simp add: after_invidious_def Let_def get_with_source a)
qed

lemma mirror_requests_length: "length (mirror_requests vid) = 5"
  by (simp add: mirror_requests_def INVIDIOUS_INSTANCES_def)

lemma mirror_requests_timeout: "list_all (\<lambda>rq. req_timeout rq = Some 2000) (mirror_requests vid)"
  by (simp add: mirror_requests_def INVIDIOUS_INSTANCES_def invidious_request_def get_request_def)

lemma late_answer_None:
  "req_timeout rq = Some limit \<Longrightarrow> net rq = Responded t r \<Longrightarrow> limit \<le> t \<Longrightarrow> answer net rq = None"
  by (simp add: answer_def fetch_def)

lemma fetchFromInvidious_first_success:
  assumes "k < 5" and "\<forall>i<k. answer net (mirror_requests vid ! i) = None"
    and "answer net (mirror_requests vid ! k) = Some v"
  shows "fetchFromInvidious net vid = (v, take (Suc k) (mirror_requests vid))"
proof -
  have l: "length INVIDIOUS_INSTANCES = 5" by (simp add: INVIDIOUS_INSTANCES_def)
  have n: "\<And>i. i < 5 \<Longrightarrow> mirror_requests vid ! i = invidious_request vid (INVIDIOUS_INSTANCES ! i)"
    by (simp add: mirror_requests_def l)
  have "invidious_loop net vid INVIDIOUS_INSTANCES
          = (v, map (invidious_request vid) (take (Suc k) INVIDIOUS_INSTANCES))"
  proof (rule invidious_loop_first_success)
    show "k < length INVIDIOUS_INSTANCES" using assms(1) l by simp
    show "\<forall>i<k. answer net (invidious_request vid (INVIDIOUS_INSTANCES ! i)) = None"
      using assms(1,2) n by auto
    show "answer net (invidious_request vid (INVIDIOUS_INSTANCES ! k)) = Some v"
      using assms(1,3) n by auto
  qed
  then show ?thesis by (simp add: fetchFromInvidious_def mirror_requests_def take_map)
qed

lemma fetchFromInvidious_none_succeeds:
  assumes "\<forall>i<5. answer net (mirror_requests vid ! i) = None"
  shows "fetchFromInvidious net vid = (VNull, mirror_requests vid)"
proof -
  have l: "length INVIDIOUS_INSTANCES = 5" by (simp add: INVIDIOUS_INSTANCES_def)
  have "\<forall>b\<in>set INVIDIOUS_INSTANCES. answer net (invidious_request vid b) = None"
  proof
    fix b assume "b \<in> set INVIDIOUS_INSTANCES"
    then obtain i where "i < 5" "b = INVIDIOUS_INSTANCES ! i"
      using l by (metis in_set_conv_nth)
    then show "answer net (invidious_request vid b) = None"
      using assms by (simp add: mirror_requests_def l)
  qed
  then show ?thesis
    by (simp add: fetchFromInvidious_def mirror_requests_def invidious_loop_all_fail)
qed

text \<open>
  Claim C7, as amended. The federated tier has five mirror requests, in the order of the
  configured list, each with an abort timer of 2000 ms, and a response that arrives at
  2000 ms or later yields nothing. When mirror \<open>k\<close> is the first whose response arrives in
  time with an ok status and a JSON body, \<open>fetchFromInvidious\<close> returns that parsed body
  and has contacted exactly the mirrors up to \<open>k\<close>. When the Apify tier has not answered,
  the chain returns a truthy body with \<open>source\<close> set to invidious, and treats a falsy body
  as a failed tier: its result is then that of the later tiers and is never tagged
  invidious. When no mirror succeeds, \<open>fetchFromInvidious\<close> returns \<open>null\<close> after
  contacting all five.
\<close>

theorem fetchFromInvidious_failover:
  "map req_url (mirror_requests vid) =
     [str ''https://inv.tux.pizza/api/v1/videos/'' @ vid,
      str ''https://invidious.jing.rocks/api/v1/videos/'' @ vid,
      str ''https://vid.puffyan.us/api/v1/videos/'' @ vid,
      str ''https://inv.bp.projectsegfau.lt/api/v1/videos/'' @ vid,
      str ''https://invidious.nerdvpn.de/api/v1/videos/'' @ vid]
   \<and> length (mirror_requests vid) = 5
   \<and> list_all (\<lambda>rq. req_timeout rq = Some 2000) (mirror_requests vid)
   \<and> (\<forall>rq t r. req_timeout rq = Some 2000 \<and> net rq = Responded t r \<and> 2000 \<le> t
         \<longrightarrow> answer net rq = None)
   \<and> (\<forall>k v. k < 5 \<and> (\<forall>i<k. answer net (mirror_requests vid ! i) = None)
            \<and> answer net (mirror_requests vid ! k) = Some v
         \<longrightarrow> fetchFromInvidious net vid = (v, take (Suc k) (mirror_requests vid))
           \<and> (truthy v \<and> fst (apify_youtube_tier net vid tok) = None
                \<longrightarrow> fst (fetchYouTubeMetadata net vid key tok) = with_source v ''invidious''
                  \<and> get (fst (fetchYouTubeMetadata net vid key tok)) (str ''source'') = vstr ''invidious''
                  \<and> snd (fetchYouTubeMetadata net vid key tok)
                      = snd (apify_youtube_tier net vid tok) @ take (Suc k) (mirror_requests vid))
           \<and> (\<not> truthy v \<and> fst (apify_youtube_tier net vid tok) = None
                \<longrightarrow> fst (fetchYouTubeMetadata net vid key tok) = after_invidious net vid key
                  \<and> get (fst (fetchYouTubeMetadata net vid key tok)) (str ''source'')
                      \<noteq> vstr ''invidious''))
   \<and> ((\<forall>i<5. answer net (mirror_requests vid ! i) = None)
         \<longrightarrow> fetchFromInvidious net vid = (VNull, mirror_requests vid))"
proof (intro conjI allI impI)
  show "map req_url (mirror_requests vid) =
     [str ''https://inv.tux.pizza/api/v1/videos/'' @ vid,
      str ''https://invidious.jing.rocks/api/v1/videos/'' @ vid,
      str ''https://vid.puffyan.us/api/v1/videos/'' @ vid,
      str ''https://inv.bp.projectsegfau.lt/api/v1/videos/'' @ vid,
      str ''https://invidious.nerdvpn.de/api/v1/videos/'' @ vid]"
    by (simp add: mirror_requests_def INVIDIOUS_INSTANCES_def invidious_request_def get_request_def str_def)
  show "length (mirror_requests vid) = 5" by (rule mirror_requests_length)
  show "list_all (\<lambda>rq. req_timeout rq = Some 2000) (mirror_requests vid)"
    by (rule mirror_requests_timeout)
next
  fix rq t r
  assume "req_timeout rq = Some 2000 \<and> net rq = Responded t r \<and> 2000 \<le> t"
  then show "answer net rq = None" by (simp add: late_answer_None)
next
  fix k v
  assume a: "k < 5 \<and> (\<forall>i<k. answer net (mirror_requests vid ! i) = None)
            \<and> answer net (mirror_requests vid ! k) = Some v"
  then show f: "fetchFromInvidious net vid = (v, take (Suc k) (mirror_requests vid))"
    by (simp add: fetchFromInvidious_first_success)
  assume b: "truthy v \<and> fst (apify_youtube_tier net vid tok) = None"
  have c: "fetchYouTubeMetadata net vid key tok =
           (with_source v ''invidious'', snd (apify_youtube_tier net vid tok) @ snd (fetchFromInvidious net vid))"
    using b f by (simp add: fetchYouTubeMetadata_invidious)
  show "fst (fetchYouTubeMetadata net vid key tok) = with_source v ''invidious''"
    using c by simp
  show "get (fst (fetchYouTubeMetadata net vid key tok)) (str ''source'') = vstr ''invidious''"
    using c by (simp add: get_with_source)
  show "snd (fetchYouTubeMetadata net vid key tok)
          = snd (apify_youtube_tier net vid tok) @ take (Suc k) (mirror_requests vid)"
    using c f by simp
next
  fix k v
  assume a: "k < 5 \<and> (\<forall>i<k. answer net (mirror_requests vid ! i) = None)
            \<and> answer net (mirror_requests vid ! k) = Some v"
  then have f: "fetchFromInvidious net vid = (v, take (Suc k) (mirror_requests vid))"
    by (simp add: fetchFromInvidious_first_success)
  assume b: "\<not> truthy v \<and> fst (apify_youtube_tier net vid tok) = None"
  show d: "fst (fetchYouTubeMetadata net vid key tok) = after_invidious net vid key"
    using b f by (simp add: fetchYouTubeMetadata_invidious_falsy)
  show "get (fst (fetchYouTubeMetadata net vid key tok)) (str ''source'') \<noteq> vstr ''invidious''"
    unfolding d by (rule after_invidious_source)
next
  assume "\<forall>i<5. answer net (mirror_requests vid ! i) = None"
  then show "fetchFromInvidious net vid = (VNull, mirror_requests vid)"
    by (rule fetchFromInvidious_none_succeeds)
qed

lemma answer_Some:
  "answer net rq = Some d \<Longrightarrow> \<exists>r. fetch net rq = Some r \<and> ok r \<and> json r = Some d"
  by (auto simp: answer_def split: option.splits if_splits)

lemma get_obj_title: "get (obj ((''title'', v) # ps)) (str ''title'') = v"
  by (simp add: obj_def)

lemma get_nullish: "nullish v \<Longrightarrow> get v k = VUndefined"
  by (auto simp: nullish_def)

lemma printable_template: "printable v \<Longrightarrow> \<exists>s. template pre v post = Inr s"
  by (auto simp: printable_def template_def split: sum.splits)

lemma falsy_printable: "\<not> truthy v \<Longrightarrow> printable v"
  by (cases v) (simp_all add: printable_def)

lemma printable_VStr: "printable (VStr s)"
  by (simp add: printable_def)

lemma instagram_authorName_printable:
  "printable v \<Longrightarrow> \<exists>a. instagram_authorName (js_or v (VStr [])) = Inr a"
  using printable_template[of v "str ''@''" "[]"]
  by (auto simp: instagram_authorName_def js_or_def)

lemma instagram_title:
  assumes "truthy tok" and "instagram_request postId tok = Inr rq" and "answer net rq = Some data"
    and "first_item data = Inr (Some item)" and "get item (str ''caption'') = VStr cap" and "cap \<noteq> []"
    and "printable (get item (str ''ownerUsername''))"
  shows "get (fst (fetchInstagramMetadata net postId tok)) (str ''title'')
           = VStr (take 100 (takeWhile (\<lambda>x. x \<noteq> 10) cap))"
proof -
  from answer_Some[OF assms(3)] obtain r where
    r: "fetch net rq = Some r" "ok r" "json r = Some data" by blast
  have n: "\<not> nullish item" using assms(5) get_nullish by fastforce
  from instagram_authorName_printable[OF assms(7)] obtain a where
    a: "instagram_authorName (js_or (get item (str ''ownerUsername'')) (VStr [])) = Inr a" by blast
  have "\<exists>m. instagram_from_item postId item = Inr m
          \<and> get m (str ''title'') = VStr (take 100 (takeWhile (\<lambda>x. x \<noteq> 10) cap))"
    using n assms(5,6) a
    by (simp add: instagram_from_item_def instagram_title_def js_or_def Let_def get_obj_title)
  then show ?thesis
    using assms(1,2,4) r by (auto simp add: fetchInstagramMetadata_def Let_def)
qed

lemma tiktok_authorName_printable:
  "printable v \<Longrightarrow> \<exists>a. tiktok_authorName v = Inr a"
  using printable_template[of v "str ''@''" "[]"]
  by (auto simp: tiktok_authorName_def)

lemma tiktok_canonicalUrl_printable:
  assumes "printable author" and "truthy (get item (str ''webVideoUrl'')) \<or> printable cid"
  shows "\<exists>c. tiktok_canonicalUrl item author cid = Inr c"
proof (cases "truthy (get item (str ''webVideoUrl''))")
  case True
  then show ?thesis by (simp add: tiktok_canonicalUrl_def)
next
  case False
  with assms(2) have p: "printable cid" by simp
  from printable_template[OF assms(1)] obtain start where
    s: "template (str ''https://www.tiktok.com/@'') author (str ''/video/'') = Inr start" by blast
  from printable_template[OF p] obtain t where t: "template start cid [] = Inr t" by blast
  show ?thesis using False s t by (simp add: tiktok_canonicalUrl_def)
qed

lemma tiktok_title_cut:
  assumes "truthy tok" and "tiktok_request u tok = Inr rq" and "answer net rq = Some data"
    and "first_item data = Inr (Some item)" and "\<not> nullish item"
    and "tiktok_title item = VStr t"
    and "tiktok_canonicalVideoId item = Inr cid"
    and "printable (tiktok_author item)"
    and "truthy (get item (str ''webVideoUrl'')) \<or> printable cid"
  shows "\<exists>m. fst (fetchTikTokMetadata now net u tok) = Inr m \<and> get m (str ''title'') = VStr (take 100 t)"
proof -
  from answer_Some[OF assms(3)] obtain r where
    r: "fetch net rq = Some r" "ok r" "json r = Some data" by blast
  from tiktok_canonicalUrl_printable[OF assms(8,9)] obtain c where
    c: "tiktok_canonicalUrl item (tiktok_author item) cid = Inr c" by blast
  from tiktok_authorName_printable[OF assms(8)] obtain a where
    a: "tiktok_authorName (tiktok_author item) = Inr a" by blast
  have "\<exists>m. tiktok_from_item item = Inr m \<and> get m (str ''title'') = VStr (take 100 t)"
    using assms(5,6,7) c a by (simp add: tiktok_from_item_def Let_def get_obj_title)
  then show ?thesis
    using assms(1,2,4) r by (auto simp add: fetchTikTokMetadata_def Let_def)
qed

lemma apify_youtube_title:
  assumes "truthy tok" and "apify_youtube_request vid tok = Inr rq" and "answer net rq = Some data"
    and "first_item data = Inr (Some item)"
    and "\<not> truthy (get item (str ''error''))" and "truthy (get item (str ''title''))"
  shows "get (fst (fetchYouTubeMetadata net vid key tok)) (str ''title'') = get item (str ''title'')"
proof -
  from answer_Some[OF assms(3)] obtain r where
    r: "fetch net rq = Some r" "ok r" "json r = Some data" by blast
  have n: "\<not> nullish item" using assms(6) get_nullish by fastforce
  have "\<exists>m. apify_youtube_from_item vid item = Inr (Some m)
          \<and> get m (str ''title'') = get item (str ''title'')"
    using n assms(5,6) by (simp add: apify_youtube_from_item_def get_obj_title)
  then have "\<exists>m. fst (apify_youtube_tier net vid tok) = Some m
          \<and> get m (str ''title'') = get item (str ''title'')"
    using assms(1,2,4) r by (auto simp add: apify_youtube_tier_def Let_def)
  then show ?thesis
    by (auto simp add: fetchYouTubeMetadata_def Let_def split: prod.splits)
qed

text \<open>
  Claim C4, as amended. When the Apify tier answers and the record can be built from the
  first item (the owner or author name, and the video id where it is printed, have a
  string form), the Instagram title is the first line of the caption cut to its first
  100 code units, and the TikTok title is the scraped text cut to its first 100 code
  units; the YouTube title is the item's title unchanged, whatever its length.
\<close>

theorem scraped_title_truncation:
  "(truthy tok \<and> instagram_request postId tok = Inr rq \<and> answer net rq = Some data
      \<and> first_item data = Inr (Some item) \<and> get item (str ''caption'') = VStr cap \<and> cap \<noteq> []
      \<and> printable (get item (str ''ownerUsername''))
     \<longrightarrow> get (fst (fetchInstagramMetadata net postId tok)) (str ''title'')
           = VStr (take 100 (takeWhile (\<lambda>x. x \<noteq> 10) cap)))
   \<and> (truthy tok \<and> tiktok_request u tok = Inr rq \<and> answer net rq = Some data
      \<and> first_item data = Inr (Some item) \<and> \<not> nullish item
      \<and> tiktok_title item = VStr t
      \<and> tiktok_canonicalVideoId item = Inr cid
      \<and> printable (tiktok_author item)
      \<and> (truthy (get item (str ''webVideoUrl'')) \<or> printable cid)
     \<longrightarrow> (\<exists>m. fst (fetchTikTokMetadata now net u tok) = Inr m
              \<and> get m (str ''title'') = VStr (take 100 t)))
   \<and> (truthy tok \<and> apify_youtube_request vid tok = Inr rq \<and> answer net rq = Some data
      \<and> first_item data = Inr (Some item)
      \<and> \<not> truthy (get item (str ''error'')) \<and> truthy (get item (str ''title''))
     \<longrightarrow> get (fst (fetchYouTubeMetadata net vid key tok)) (str ''title'') = get item (str ''title''))"
  using instagram_title[of tok postId rq net data item cap]
        tiktok_title_cut[of tok u rq net data item t cid now]
        apify_youtube_title[of tok vid rq net data item key]
  by blast

lemma suggestedTitle_nonempty:
  assumes "parseUrl now u = Inr (Some c)"
  shows "suggestedTitle c \<noteq> []"
proof -
  from assms obtain s where "parse_loop now (trim s) URL_PATTERNS = Some c"
    by (rule parseUrl_Some)
  then show ?thesis
    by (cases rule: parse_loop_cases)
       (simp_all add: classify_fields make_suggestedTitle_def str_def)
qed

lemma tiktok_fallback_parsed:
  assumes "parseUrl now (VStr u) = Inr (Some c)"
  shows "tiktok_fallback now u =
           Inr (obj [(''title'', VStr (suggestedTitle c)), (''description'', VStr []),
                     (''authorName'', VStr (creatorHandle c)), (''thumbnail'', VStr []),
                     (''source'', vstr ''tiktok'')])"
  using assms suggestedTitle_nonempty[OF assms]
  by (simp add: tiktok_fallback_def js_or_def)

lemma tiktok_fallback_unparsed:
  assumes "parseUrl now (VStr u) = Inr None"
  shows "tiktok_fallback now u =
           Inr (obj [(''title'', vstr ''TikTok Video''), (''description'', VStr []),
                     (''authorName'', VStr []), (''thumbnail'', VStr []),
                     (''source'', vstr ''tiktok'')])"
  using assms by (simp add: tiktok_fallback_def js_or_def)

text \<open>
  Claim C1, as amended. When no request yields a parsed body (every request is rejected,
  aborted, answered with a status that is not ok, or answered with a body that is not
  JSON), \<open>fetchYouTubeMetadata\<close> returns \<open>null\<close>; \<open>fetchInstagramMetadata\<close> returns the
  record built from the post id, with source instagram; \<open>fetchTikTokMetadata\<close> returns a
  record with source tiktok whose title is the suggested title of the classification
  of the URL, or \<open>TikTok Video\<close> when \<open>parseUrl\<close> returns \<open>null\<close>.
\<close>

theorem all_tiers_fail_results:
  assumes "\<forall>rq. answer net rq = None"
  shows "fst (fetchYouTubeMetadata net vid key tok) = VNull
       \<and> fst (fetchInstagramMetadata net postId tok) =
           obj [(''title'', VStr (str ''Instagram Post ('' @ postId @ str '')'')),
                (''description'', VStr []), (''authorName'', VStr []),
                (''thumbnail'', VStr (str ''https://www.instagram.com/p/'' @ postId @ str ''/media/?size=l'')),
                (''source'', vstr ''instagram'')]
       \<and> (\<forall>c. parseUrl now (VStr u) = Inr (Some c) \<longrightarrow>
            fst (fetchTikTokMetadata now net u tok) =
              Inr (obj [(''title'', VStr (suggestedTitle c)), (''description'', VStr []),
                        (''authorName'', VStr (creatorHandle c)), (''thumbnail'', VStr []),
                        (''source'', vstr ''tiktok'')]))
       \<and> (parseUrl now (VStr u) = Inr None \<longrightarrow>
            fst (fetchTikTokMetadata now net u tok) =
              Inr (obj [(''title'', vstr ''TikTok Video''), (''description'', VStr []),
                        (''authorName'', VStr []), (''thumbnail'', VStr []),
                        (''source'', vstr ''tiktok'')]))"
  using fetchYouTubeMetadata_fail[OF assms, of vid key tok]
        fetchInstagramMetadata_fail[OF assms, of postId tok]
        fetchTikTokMetadata_fail[OF assms, of now u tok]
  by (simp add: instagram_fallback_def instagram_media_url_def tiktok_fallback_parsed
        tiktok_fallback_unparsed)

lemmas net_defs = answer_def fetch_def ok_def unreachable_def always_def get_request_def post_json_def
  first_item_def obj_def vstr_def js_or_def nullish_def with_source_def num_def template_def

lemmas fetch_defs = fetchYouTubeMetadata_def apify_youtube_tier_def apify_youtube_request_def
  apify_youtube_from_item_def fetchFromInvidious_def INVIDIOUS_INSTANCES_def invidious_request_def
  fetchFromYouTubeAPI_def youtube_api_request_def youtube_api_result_def read_prop_def
  fetchFromOEmbed_def oembed_result_def youtube_thumbnail_def
  unreserved_def is_low_surrogate_def is_high_surrogate_def utf8_def pct_def hex_digit_def
  fetchInstagramMetadata_def instagram_request_def instagram_from_item_def instagram_title_def
  instagram_authorName_def instagram_fallback_def instagram_media_url_def
  fetchTikTokMetadata_def tiktok_request_def tiktok_from_item_def tiktok_title_def tiktok_author_def
  tiktok_canonicalVideoId_def tiktok_canonicalUrl_def tiktok_authorName_def
  tiktok_fallback_def last_segment_def

text \<open>
  Claim C1 as stated fails on a network that rejects every request: the YouTube chain
  returns \<open>null\<close>, and the Instagram and TikTok records carry their platform name as
  source, never \<open>fallback\<close>; the Instagram title is built from the post id.
\<close>

theorem all_tiers_fail_counterexample:
  "fst (fetchYouTubeMetadata unreachable (str ''dQw4w9WgXcQ'') (vstr ''key'') (vstr ''token'')) = VNull
   \<and> get (fst (fetchInstagramMetadata unreachable (str ''ABC123'') (vstr ''token''))) (str ''source'')
       = vstr ''instagram''
   \<and> get (fst (fetchInstagramMetadata unreachable (str ''ABC123'') (vstr ''token''))) (str ''title'')
       = vstr ''Instagram Post (ABC123)''
   \<and> (\<exists>m. fst (fetchTikTokMetadata \<lparr>getMonth = 10, getDate = 3\<rparr> unreachable
               (str ''https://vt.tiktok.com/ZS8abcd/'') (vstr ''token'')) = Inr m
        \<and> get m (str ''source'') = vstr ''tiktok'')
   \<and> vstr ''instagram'' \<noteq> vstr ''fallback'' \<and> vstr ''tiktok'' \<noteq> vstr ''fallback''"
  by (simp add: fetch_defs net_defs eval_defs Let_def)

theorem all_tiers_fail_results_witness:
  "fst (fetchYouTubeMetadata unreachable (str ''dQw4w9WgXcQ'') (vstr ''key'') (vstr ''token'')) = VNull
   \<and> fst (fetchInstagramMetadata unreachable (str ''ABC123'') (vstr ''token'')) =
        obj [(''title'', VStr (str ''Instagram Post ('' @ str ''ABC123'' @ str '')'')),
             (''description'', VStr []), (''authorName'', VStr []),
             (''thumbnail'', VStr (str ''https://www.instagram.com/p/'' @ str ''ABC123'' @ str ''/media/?size=l'')),
             (''source'', vstr ''instagram'')]
   \<and> fst (fetchTikTokMetadata \<lparr>getMonth = 10, getDate = 3\<rparr> unreachable
             (str ''https://www.tiktok.com/@chef.kim/video/7123456789012345678'') (vstr ''token'')) =
        Inr (obj [(''title'', VStr (str ''TikTok '' @ recipe_word @ str '' (11/3)'')),
                  (''description'', VStr []), (''authorName'', vstr ''@chef.kim''),
                  (''thumbnail'', VStr []), (''source'', vstr ''tiktok'')])
   \<and> fst (fetchTikTokMetadata \<lparr>getMonth = 10, getDate = 3\<rparr> unreachable (str ''not a link'') (vstr ''token'')) =
        Inr (obj [(''title'', vstr ''TikTok Video''), (''description'', VStr []),
                  (''authorName'', VStr []), (''thumbnail'', VStr []), (''source'', vstr ''tiktok'')])"
proof -
  have h: "\<forall>rq. answer unreachable rq = None"
    by (simp add: answer_def fetch_def unreachable_def)
  obtain c where c: "parseUrl \<lparr>getMonth = 10, getDate = 3\<rparr>
        (VStr (str ''https://www.tiktok.com/@chef.kim/video/7123456789012345678'')) = Inr (Some c)"
    and t: "suggestedTitle c = str ''TikTok '' @ recipe_word @ str '' (11/3)''"
    and a: "creatorHandle c = str ''@chef.kim''"
    by (simp add: eval_defs make_suggestedTitle_def digits.simps)
  have n: "parseUrl \<lparr>getMonth = 10, getDate = 3\<rparr> (VStr (str ''not a link'')) = Inr None"
    by (simp add: eval_defs)
  show ?thesis
    using all_tiers_fail_results[OF h, of "str ''dQw4w9WgXcQ''" "vstr ''key''" "vstr ''token''"
            "str ''ABC123''" "\<lparr>getMonth = 10, getDate = 3\<rparr>"
            "str ''https://www.tiktok.com/@chef.kim/video/7123456789012345678''"]
          all_tiers_fail_results[OF h, of "str ''dQw4w9WgXcQ''" "vstr ''key''" "vstr ''token''"
            "str ''ABC123''" "\<lparr>getMonth = 10, getDate = 3\<rparr>" "str ''not a link''"]
          c t a n
    by (simp add: vstr_def)
qed

text \<open>
  Claim C4 as stated fails on the YouTube Apify tier: a scraped title of 125 code units
  is returned whole.
\<close>

theorem scraped_title_counterexample:
  "get (fst (fetchYouTubeMetadata (always scraped_dataset) (str ''dQw4w9WgXcQ'') VNull (vstr ''token'')))
       (str ''title'') = VStr long_text
   \<and> length long_text = 125"
proof -
  have l: "length long_text = 125" "long_text \<noteq> []" by (simp_all add: long_text_def str_def)
  have "get (fst (fetchYouTubeMetadata (always scraped_dataset) (str ''dQw4w9WgXcQ'') VNull (vstr ''token'')))
       (str ''title'') = VStr long_text"
    using l(2) by (simp add: fetch_defs net_defs scraped_dataset_def str_def Let_def)
  with l show ?thesis by simp
qed

lemma always_answer: "req_timeout rq = None \<Longrightarrow> answer (always body) rq = Some body"
  by (simp add: answer_def fetch_def always_def ok_def)

lemma scraped_dataset_first:
  "first_item scraped_dataset = Inr (Some (obj [(''caption'', VStr long_text), (''text'', VStr long_text),
     (''title'', VStr long_text)]))"
  by (simp add: first_item_def scraped_dataset_def str_def num_def)

lemma long_text_first_line:
  "take 100 (takeWhile (\<lambda>x. x \<noteq> 10) long_text) = replicate 100 (of_char CHR ''a'')"
  "take 100 long_text = replicate 100 (of_char CHR ''a'')"
  "long_text \<noteq> []"
proof -
  have "takeWhile (\<lambda>x. x \<noteq> 10) (replicate 120 (of_char CHR ''a'' :: cu) @ ([10] @ str ''more''))
          = replicate 120 (of_char CHR ''a'') @ takeWhile (\<lambda>x. x \<noteq> 10) ([10] @ str ''more'')"
    by (rule takeWhile_append2) simp
  then show "take 100 (takeWhile (\<lambda>x. x \<noteq> 10) long_text) = replicate 100 (of_char CHR ''a'')"
    by (simp add: long_text_def)
  show "take 100 long_text = replicate 100 (of_char CHR ''a'')" by (simp add: long_text_def)
  show "long_text \<noteq> []" by (simp add: long_text_def)
qed

theorem scraped_title_truncation_witness:
  "get (fst (fetchInstagramMetadata (always scraped_dataset) (str ''ABC123'') (vstr ''token'')))
       (str ''title'') = VStr (replicate 100 (of_char CHR ''a''))
   \<and> (\<exists>m. fst (fetchTikTokMetadata \<lparr>getMonth = 10, getDate = 3\<rparr> (always scraped_dataset)
               (str ''https://vt.tiktok.com/ZS8abcd/'') (vstr ''token'')) = Inr m
         \<and> get m (str ''title'') = VStr (replicate 100 (of_char CHR ''a'')))
   \<and> get (fst (fetchYouTubeMetadata (always scraped_dataset) (str ''dQw4w9WgXcQ'') VNull (vstr ''token'')))
       (str ''title'') = VStr long_text"
proof -
  let ?item = "obj [(''caption'', VStr long_text), (''text'', VStr long_text), (''title'', VStr long_text)]"
  let ?net = "always scraped_dataset"
  have t: "truthy (vstr ''token'')" by (simp add: vstr_def str_def)
  obtain rq1 where q1: "instagram_request (str ''ABC123'') (vstr ''token'') = Inr rq1"
    and l1: "req_timeout rq1 = None"
    by (simp add: instagram_request_def template_def vstr_def post_json_def)
  obtain rq2 where q2: "tiktok_request (str ''https://vt.tiktok.com/ZS8abcd/'') (vstr ''token'') = Inr rq2"
    and l2: "req_timeout rq2 = None"
    by (simp add: tiktok_request_def template_def vstr_def post_json_def)
  obtain rq3 where q3: "apify_youtube_request (str ''dQw4w9WgXcQ'') (vstr ''token'') = Inr rq3"
    and l3: "req_timeout rq3 = None"
    by (simp add: apify_youtube_request_def template_def vstr_def post_json_def)
  have a1: "answer ?net rq1 = Some scraped_dataset" using l1 by (rule always_answer)
  have a2: "answer ?net rq2 = Some scraped_dataset" using l2 by (rule always_answer)
  have a3: "answer ?net rq3 = Some scraped_dataset" using l3 by (rule always_answer)
  have g: "get ?item (str ''caption'') = VStr long_text" "get ?item (str ''title'') = VStr long_text"
    "get ?item (str ''error'') = VUndefined" "get ?item (str ''webVideoUrl'') = VUndefined"
    "get ?item (str ''ownerUsername'') = VUndefined"
    "\<not> nullish ?item"
    by (simp_all add: obj_def str_def nullish_def)
  have j: "tiktok_title ?item = VStr long_text"
    by (simp add: tiktok_title_def js_or_def obj_def str_def long_text_def)
  have c: "tiktok_canonicalVideoId ?item = Inr VNull"
    by (simp add: tiktok_canonicalVideoId_def obj_def str_def)
  have p: "printable VUndefined" "printable VNull" "printable (tiktok_author ?item)"
    by (simp_all add: printable_def tiktok_author_def js_or_def obj_def str_def)
  have tt: "truthy (VStr long_text)" using long_text_first_line(3) by simp
  have r1: "get (fst (fetchInstagramMetadata ?net (str ''ABC123'') (vstr ''token''))) (str ''title'')
              = VStr (take 100 (takeWhile (\<lambda>x. x \<noteq> 10) long_text))"
    using scraped_title_truncation[of "vstr ''token''" "str ''ABC123''" rq1 ?net scraped_dataset ?item
            long_text, THEN conjunct1]
          t q1 a1 scraped_dataset_first g p long_text_first_line(3)
    by simp
  have r2: "\<exists>m. fst (fetchTikTokMetadata \<lparr>getMonth = 10, getDate = 3\<rparr> ?net
                     (str ''https://vt.tiktok.com/ZS8abcd/'') (vstr ''token'')) = Inr m
              \<and> get m (str ''title'') = VStr (take 100 long_text)"
    using scraped_title_truncation[of "vstr ''token''" _ rq2 ?net scraped_dataset ?item _
            "str ''https://vt.tiktok.com/ZS8abcd/''" long_text VNull "\<lparr>getMonth = 10, getDate = 3\<rparr>",
            THEN conjunct2, THEN conjunct1]
          t q2 a2 scraped_dataset_first g j c p
    by simp
  have r3: "get (fst (fetchYouTubeMetadata ?net (str ''dQw4w9WgXcQ'') VNull (vstr ''token''))) (str ''title'')
              = get ?item (str ''title'')"
    using scraped_title_truncation[of "vstr ''token''" _ rq3 ?net scraped_dataset ?item _ _ _ _ _
            "str ''dQw4w9WgXcQ''" VNull, THEN conjunct2, THEN conjunct2]
          t q3 a3 scraped_dataset_first g tt
    by simp
  from r1 r2 r3 show ?thesis by (simp add: long_text_first_line g)
qed

text \<open>
  Claim C7 as stated fails when the first mirror answers with the JSON body \<open>false\<close>:
  \<open>fetchFromInvidious\<close> returns it after one request, and the chain, which tests the
  result for truthiness, goes on and answers from the embed tier.
\<close>

theorem fetchFromInvidious_counterexample:
  "fetchFromInvidious (always (VBool False)) (str ''dQw4w9WgXcQ'')
     = (VBool False, [invidious_request (str ''dQw4w9WgXcQ'') (str ''https://inv.tux.pizza'')])
   \<and> get (fst (fetchYouTubeMetadata (always (VBool False)) (str ''dQw4w9WgXcQ'') VNull VNull))
        (str ''source'') = vstr ''oembed''
   \<and> vstr ''oembed'' \<noteq> vstr ''invidious''"
  by (simp add: fetch_defs net_defs str_def Let_def)

theorem fetchFromInvidious_failover_witness:
  "fetchFromInvidious third_mirror_net (str ''dQw4w9WgXcQ'')
     = (obj [(''title'', vstr ''Pasta'')], take 3 (mirror_requests (str ''dQw4w9WgXcQ'')))
   \<and> fst (fetchYouTubeMetadata third_mirror_net (str ''dQw4w9WgXcQ'') VNull VNull)
     = obj [(''title'', vstr ''Pasta''), (''source'', vstr ''invidious'')]
   \<and> fetchFromInvidious unreachable (str ''dQw4w9WgXcQ'')
     = (VNull, mirror_requests (str ''dQw4w9WgXcQ''))
   \<and> fst (fetchYouTubeMetadata (always (VBool False)) (str ''dQw4w9WgXcQ'') VNull VNull)
     = after_invidious (always (VBool False)) (str ''dQw4w9WgXcQ'') VNull"
proof -
  let ?v = "str ''dQw4w9WgXcQ''"
  have m: "mirror_requests ?v ! 0 = invidious_request ?v (str ''https://inv.tux.pizza'')"
    "mirror_requests ?v ! 1 = invidious_request ?v (str ''https://invidious.jing.rocks'')"
    "mirror_requests ?v ! 2 = invidious_request ?v (str ''https://vid.puffyan.us'')"
    by (simp_all add: mirror_requests_def INVIDIOUS_INSTANCES_def)
  have a0: "answer third_mirror_net (mirror_requests ?v ! 0) = None"
    unfolding m by (simp add: answer_def fetch_def third_mirror_net_def invidious_request_def get_request_def str_def)
  have a1: "answer third_mirror_net (mirror_requests ?v ! 1) = None"
    unfolding m by (simp add: answer_def fetch_def ok_def third_mirror_net_def invidious_request_def get_request_def str_def)
  have a2: "answer third_mirror_net (mirror_requests ?v ! 2) = Some (obj [(''title'', vstr ''Pasta'')])"
    unfolding m by (simp add: answer_def fetch_def ok_def third_mirror_net_def invidious_request_def get_request_def str_def)
  have b: "\<forall>i<2. answer third_mirror_net (mirror_requests ?v ! i) = None"
    using a0 a1 by (simp add: less_Suc_eq numeral_2_eq_2)
  have t: "truthy (obj [(''title'', vstr ''Pasta'')])" by (simp add: obj_def)
  have p: "fst (apify_youtube_tier third_mirror_net ?v VNull) = None"
    by (simp add: apify_youtube_tier_def)
  have u: "\<forall>i<5. answer unreachable (mirror_requests ?v ! i) = None"
    by (simp add: answer_def fetch_def unreachable_def)
  have w: "with_source (obj [(''title'', vstr ''Pasta'')]) ''invidious''
             = obj [(''title'', vstr ''Pasta''), (''source'', vstr ''invidious'')]"
    by (simp add: with_source_def obj_def str_def)
  note F = fetchFromInvidious_failover[of ?v third_mirror_net VNull VNull]
  note K = F[THEN conjunct2, THEN conjunct2, THEN conjunct2, THEN conjunct2, THEN conjunct1, rule_format,
             of 2 "obj [(''title'', vstr ''Pasta'')]"]
  have prem: "(2::nat) < 5 \<and> (\<forall>i<2. answer third_mirror_net (mirror_requests ?v ! i) = None)
        \<and> answer third_mirror_net (mirror_requests ?v ! 2) = Some (obj [(''title'', vstr ''Pasta'')])"
    using a2 b by simp
  have r1: "fetchFromInvidious third_mirror_net ?v
          = (obj [(''title'', vstr ''Pasta'')], take (Suc 2) (mirror_requests ?v))"
    using K[OF prem] by (rule conjunct1)
  have "truthy (obj [(''title'', vstr ''Pasta'')]) \<and> fst (apify_youtube_tier third_mirror_net ?v VNull) = None
          \<longrightarrow> fst (fetchYouTubeMetadata third_mirror_net ?v VNull VNull)
                = with_source (obj [(''title'', vstr ''Pasta'')]) ''invidious''
            \<and> get (fst (fetchYouTubeMetadata third_mirror_net ?v VNull VNull)) (str ''source'')
                = vstr ''invidious''
            \<and> snd (fetchYouTubeMetadata third_mirror_net ?v VNull VNull)
                = snd (apify_youtube_tier third_mirror_net ?v VNull) @ take (Suc 2) (mirror_requests ?v)"
    using K[OF prem] by (rule conjunct2[THEN conjunct1])
  then have r2: "fst (fetchYouTubeMetadata third_mirror_net ?v VNull VNull)
                = with_source (obj [(''title'', vstr ''Pasta'')]) ''invidious''"
    using t p by simp
  have r3: "fetchFromInvidious unreachable ?v = (VNull, mirror_requests ?v)"
    using fetchFromInvidious_failover[of ?v unreachable VNull VNull, THEN conjunct2, THEN conjunct2,
            THEN conjunct2, THEN conjunct2, THEN conjunct2] u
    by simp
  have f0: "answer (always (VBool False)) (mirror_requests ?v ! 0) = Some (VBool False)"
    unfolding m by (simp add: answer_def fetch_def ok_def always_def invidious_request_def get_request_def)
  have p0: "fst (apify_youtube_tier (always (VBool False)) ?v VNull) = None"
    by (simp add: apify_youtube_tier_def)
  note F0 = fetchFromInvidious_failover[of ?v "always (VBool False)" VNull VNull]
  note K0 = F0[THEN conjunct2, THEN conjunct2, THEN conjunct2, THEN conjunct2, THEN conjunct1, rule_format,
               of 0 "VBool False"]
  have prem0: "(0::nat) < 5 \<and> (\<forall>i<0. answer (always (VBool False)) (mirror_requests ?v ! i) = None)
        \<and> answer (always (VBool False)) (mirror_requests ?v ! 0) = Some (VBool False)"
    using f0 by simp
  have "\<not> truthy (VBool False) \<and> fst (apify_youtube_tier (always (VBool False)) ?v VNull) = None
          \<longrightarrow> fst (fetchYouTubeMetadata (always (VBool False)) ?v VNull VNull)
                = after_invidious (always (VBool False)) ?v VNull
            \<and> get (fst (fetchYouTubeMetadata (always (VBool False)) ?v VNull VNull)) (str ''source'')
                \<noteq> vstr ''invidious''"
    using K0[OF prem0] by (rule conjunct2[THEN conjunct2])
  then have r4: "fst (fetchYouTubeMetadata (always (VBool False)) ?v VNull VNull)
                = after_invidious (always (VBool False)) ?v VNull"
    using p0 by simp
  have "take (Suc 2) (mirror_requests ?v) = take 3 (mirror_requests ?v)"
    by (simp add: eval_nat_numeral)
  with r1 r2 r3 r4 w show ?thesis by simp
qed

text \<open>
  Two readings of a dataset that follow JavaScript's conversions. A body that is an
  object with the keys \<open>0\<close> and \<open>length\<close>, the length being the string \<open>1\<close>, passes the
  test \<open>data.length > 0\<close>, and the YouTube chain answers from the Apify tier. An owner
  name that is an object with an own \<open>toString\<close> cannot be printed: the Instagram record
  is not built and the function returns its fallback.
\<close>

lemma first_item_numeric_string:
  "first_item (obj [(''0'', item), (''length'', vstr ''1'')]) = Inr (Some item)"
  by (simp add: first_item_def obj_def vstr_def str_def string_positive_def decimal_positive_def
        trim_def is_ws_def is_digit_def exponent_part_def int_of_digits_def Let_def)

lemma apify_youtube_numeric_string_length:
  "get (fst (fetchYouTubeMetadata
        (always (obj [(''0'', obj [(''title'', vstr ''T'')]), (''length'', vstr ''1'')]))
        (str ''dQw4w9WgXcQ'') VNull (vstr ''token''))) (str ''source'') = vstr ''apify_youtube''"
  by (simp add: fetch_defs net_defs str_def string_positive_def decimal_positive_def
        trim_def is_ws_def is_digit_def exponent_part_def int_of_digits_def Let_def)

lemma instagram_unprintable_owner:
  "instagram_from_item postId
     (obj [(''caption'', vstr ''Pasta''), (''ownerUsername'', obj [(''toString'', num 1)])])
     = Inl TypeError"
  "fst (fetchInstagramMetadata
     (always (VArr [obj [(''caption'', vstr ''Pasta''), (''ownerUsername'', obj [(''toString'', num 1)])]]))
     (str ''ABC123'') (vstr ''token'')) = instagram_fallback (str ''ABC123'')"
  by (simp_all add: fetchInstagramMetadata_def instagram_request_def instagram_from_item_def
        instagram_title_def instagram_authorName_def net_defs str_def Let_def)

end
